theory Spec2Isabelle
  imports Main "HOL-Library.Sublist"
begin

section \<open>AutoGitUploader: the upload worker and the submission form\<close>

text \<open>
  The program is one Python file, \<^verbatim>\<open>AutoGitUploader.py\<close>. Its non-presentation part is
  the class \<^verbatim>\<open>WorkerThread\<close> (\<^verbatim>\<open>run\<close>, \<^verbatim>\<open>extract_archive\<close>, \<^verbatim>\<open>create_github_repo\<close>,
  \<^verbatim>\<open>cleanup\<close>) and the validation at the head of \<^verbatim>\<open>AutoGitUploader.upload_to_github\<close>.

  Everything the worker does to the outside (temporary directory, decompression,
  version control, HTTP, deletion) is a library call. The model records each such call,
  and each Qt signal emitted, as an event of a log, in the order the code performs
  them; what a library call returns or raises is read from an environment, over which
  all theorems are universally quantified. Exceptions are values: a computation returns
  \<open>Inl e\<close> where the Python raises \<open>e\<close>.
\<close>

subsection \<open>Python values\<close>

text \<open>The value \<^verbatim>\<open>response.json()\<close> returns. A \<^verbatim>\<open>dict\<close> is an association list read
  with \<^const>\<open>map_of\<close>; a float keeps its lexeme only, no claim computes with it.\<close>

datatype json =
    JNull
  | JBool bool
  | JInt int
  | JFloat string
  | JStr string
  | JArr "json list"
  | JObj "(string \<times> json) list"

text \<open>Exceptions, by class. \<open>LibError\<close> stands for whatever an external library raises
  (\<^verbatim>\<open>tempfile\<close>, \<^verbatim>\<open>zipfile\<close>, \<^verbatim>\<open>tarfile\<close>, \<^verbatim>\<open>git\<close>, \<^verbatim>\<open>requests\<close>, \<^verbatim>\<open>shutil\<close>) and carries
  its textual description. All of them are subclasses of \<^verbatim>\<open>Exception\<close>, which is what
  the two \<^verbatim>\<open>except Exception\<close> clauses of the source catch.\<close>

datatype exn =
    ValueError string
  | Exception string
  | KeyError string
  | TypeError string
  | AttributeError string
  | LibError string

text \<open>\<^verbatim>\<open>str(e)\<close>. For a \<^verbatim>\<open>KeyError\<close> Python prints the \<^verbatim>\<open>repr\<close> of the key.\<close>

fun exn_str :: "exn \<Rightarrow> string" where
  "exn_str (ValueError m) = m"
| "exn_str (Exception m) = m"
| "exn_str (KeyError k) = CHR 0x27 # k @ [CHR 0x27]"
| "exn_str (TypeError m) = m"
| "exn_str (AttributeError m) = m"
| "exn_str (LibError m) = m"

fun type_name :: "json \<Rightarrow> string" where
  "type_name JNull = ''NoneType''"
| "type_name (JBool _) = ''bool''"
| "type_name (JInt _) = ''int''"
| "type_name (JFloat _) = ''float''"
| "type_name (JStr _) = ''str''"
| "type_name (JArr _) = ''list''"
| "type_name (JObj _) = ''dict''"

text \<open>An f-string field \<^verbatim>\<open>{v}\<close> formats \<open>v\<close> with \<^verbatim>\<open>str\<close>: a string is itself; the text
  of any other value is Python's business and is taken from the environment.\<close>

definition format_value :: "(json \<Rightarrow> string) \<Rightarrow> json \<Rightarrow> string" where
  "format_value other v = (case v of JStr s \<Rightarrow> s | _ \<Rightarrow> other v)"

subsection \<open>\<^verbatim>\<open>os.path.splitext\<close> and \<^verbatim>\<open>str.lower\<close>\<close>

text \<open>
  Strings are lists of 8-bit characters: a Python string in UTF-8. The three characters
  \<^verbatim>\<open>splitext\<close> looks for (dot, slash, backslash) are ASCII, and an ASCII byte never occurs
  inside the UTF-8 of another character, so searching the bytes finds what searching the
  characters finds.

  \<open>lower\<close> folds the 26 ASCII capital letters and leaves every other byte alone. It is
  \<^verbatim>\<open>str.lower\<close> on ASCII strings only; \<^verbatim>\<open>str.lower\<close> itself is \<open>str_lower\<close> further down.
\<close>

definition lower_char :: "char \<Rightarrow> char" where
  "lower_char c =
     (case map_of (zip ''ABCDEFGHIJKLMNOPQRSTUVWXYZ'' ''abcdefghijklmnopqrstuvwxyz'') c of
        Some d \<Rightarrow> d
      | None \<Rightarrow> c)"

definition lower :: "string \<Rightarrow> string" where
  "lower s = map lower_char s"

text \<open>\<^verbatim>\<open>s.rfind(c)\<close>: the index of the last occurrence of \<open>c\<close>, or \<open>-1\<close>.\<close>

definition rfind :: "char \<Rightarrow> string \<Rightarrow> int" where
  "rfind c s =
     (if c \<in> set s then int (length s) - 1 - int (length (takeWhile (\<lambda>x. x \<noteq> c) (rev s)))
      else - 1)"

text \<open>The two path modules of CPython: \<^verbatim>\<open>posixpath\<close> has the separator \<^verbatim>\<open>/\<close>,
  \<^verbatim>\<open>ntpath\<close> has \<^verbatim>\<open>\\<close> and the alternative separator \<^verbatim>\<open>/\<close>.\<close>

datatype platform = Posix | Windows

fun separators :: "platform \<Rightarrow> char list" where
  "separators Posix = [CHR ''/'']"
| "separators Windows = [CHR 0x5C, CHR ''/'']"

text \<open>
  \<^verbatim>\<open>genericpath._splitext(p, sep, altsep, '.')\<close>: the extension starts at the last dot,
  when that dot lies after the last separator and some character between the separator
  and the dot is not a dot (leading dots of the file name do not start an extension).
  \<^verbatim>\<open>
    sepIndex = p.rfind(sep)
    if altsep: sepIndex = max(sepIndex, p.rfind(altsep))
    dotIndex = p.rfind(extsep)
    if dotIndex > sepIndex:
        filenameIndex = sepIndex + 1
        while filenameIndex < dotIndex:
            if p[filenameIndex:filenameIndex+1] != extsep:
                return p[:dotIndex], p[dotIndex:]
            filenameIndex += 1
    return p, p[:0]
  \<close>
\<close>

definition splitext :: "platform \<Rightarrow> string \<Rightarrow> string \<times> string" where
  "splitext pf p =
     (let sepIndex = fold (\<lambda>c m. max m (rfind c p)) (separators pf) (- 1);
          dotIndex = rfind CHR ''.'' p
      in if dotIndex > sepIndex \<and>
            list_ex (\<lambda>c. c \<noteq> CHR ''.'') (drop (nat (sepIndex + 1)) (take (nat dotIndex) p))
         then (take (nat dotIndex) p, drop (nat dotIndex) p)
         else (p, []))"

subsection \<open>The environment and the log\<close>

text \<open>The HTTP response as the code reads it: \<^verbatim>\<open>status_code\<close>, \<^verbatim>\<open>text\<close>, and the outcome
  of \<^verbatim>\<open>json()\<close>, which raises when the body is not JSON.\<close>

record response =
  status_code :: int
  text_body :: string
  json_body :: "exn + json"

text \<open>What each library call returns (\<open>None\<close> or \<open>Inr\<close>) or raises (\<open>Some e\<close> or \<open>Inl e\<close>),
  as a function of the call's arguments. The last two fields are Python's own: the text
  of a value that is not a string, and \<^verbatim>\<open>str.lower\<close> on strings that are not ASCII (the
  Unicode case tables are not part of the model).\<close>

record env =
  os_platform :: platform
  mkdtemp :: "exn + string"
  zip_extractall :: "string \<Rightarrow> string \<Rightarrow> exn option"
  tar_extractall :: "string \<Rightarrow> string \<Rightarrow> exn option"
  repo_init :: "string \<Rightarrow> exn option"
  git_add :: "string \<Rightarrow> exn option"
  git_commit :: "string \<Rightarrow> string \<Rightarrow> exn option"
  requests_post :: "string \<Rightarrow> (string \<times> string) list \<Rightarrow> json \<Rightarrow> exn + response"
  create_remote :: "string \<Rightarrow> string \<Rightarrow> json \<Rightarrow> exn option"
  git_push :: "string \<Rightarrow> string \<Rightarrow> string \<Rightarrow> exn option"
  path_exists :: "string \<Rightarrow> bool"
  rmtree :: "string \<Rightarrow> exn option"
  str_other :: "json \<Rightarrow> string"
  unicode_lower :: "string \<Rightarrow> string"

text \<open>The three signals of \<^verbatim>\<open>WorkerThread\<close> and the library calls it makes. The version
  control calls carry the directory of the repository object they act on.\<close>

datatype event =
    Status string
  | Progress int
  | Complete bool string
  | Mkdtemp
  | ZipExtractall string string
  | TarExtractall string string
  | RepoInit string
  | GitAdd string
  | GitCommit string string
  | HttpPost string "(string \<times> string) list" json
  | CreateRemote string string json
  | GitPush string string string
  | PathExists string
  | Rmtree string

text \<open>The fields of \<^verbatim>\<open>WorkerThread\<close> set by \<^verbatim>\<open>__init__\<close>.\<close>

record job =
  archive_path :: string
  repo_name :: string
  github_username :: string
  github_token :: string
  is_private :: bool

text \<open>The mutable part: \<^verbatim>\<open>self.temp_dir\<close> (initially \<^verbatim>\<open>None\<close>) and the log.\<close>

record wstate =
  temp_dir :: "string option"
  trace :: "event list"

definition init_state :: wstate where
  "init_state = \<lparr>temp_dir = None, trace = []\<rparr>"

type_synonym 'a action = "wstate \<Rightarrow> (exn + 'a) \<times> wstate"

definition ret :: "'a \<Rightarrow> 'a action" where
  "ret x = (\<lambda>s. (Inr x, s))"

definition raise :: "exn \<Rightarrow> 'a action" where
  "raise e = (\<lambda>s. (Inl e, s))"

text \<open>Sequencing: an exception skips the rest.\<close>

definition seq :: "'a action \<Rightarrow> ('a \<Rightarrow> 'b action) \<Rightarrow> 'b action" where
  "seq m f = (\<lambda>s. case m s of (Inl e, s') \<Rightarrow> (Inl e, s') | (Inr x, s') \<Rightarrow> f x s')"

text \<open>\<^verbatim>\<open>try: m  except Exception as e: h e\<close>.\<close>

definition try_except :: "'a action \<Rightarrow> (exn \<Rightarrow> 'a action) \<Rightarrow> 'a action" where
  "try_except m h = (\<lambda>s. case m s of (Inl e, s') \<Rightarrow> h e s' | (Inr x, s') \<Rightarrow> (Inr x, s'))"

definition emit :: "event \<Rightarrow> unit action" where
  "emit ev = (\<lambda>s. (Inr (), s\<lparr>trace := trace s @ [ev]\<rparr>))"

text \<open>A library call with no result: logged, then it returns or raises.\<close>

definition call :: "event \<Rightarrow> exn option \<Rightarrow> unit action" where
  "call ev outcome = seq (emit ev) (\<lambda>_. case outcome of None \<Rightarrow> ret () | Some e \<Rightarrow> raise e)"

text \<open>A library call with a result.\<close>

definition call_val :: "event \<Rightarrow> exn + 'a \<Rightarrow> 'a action" where
  "call_val ev outcome = seq (emit ev) (\<lambda>_. case outcome of Inr x \<Rightarrow> ret x | Inl e \<Rightarrow> raise e)"

subsection \<open>\<^verbatim>\<open>WorkerThread.extract_archive\<close>\<close>

text \<open>
  \<^verbatim>\<open>str.lower\<close> is Unicode-aware. On an ASCII string it is \<^const>\<open>lower\<close>; on any other
  string its result is the environment's: for \<^verbatim>\<open>.Z\<close>, U+0130, \<^verbatim>\<open>P\<close> Python gives \<^verbatim>\<open>.zi\<close>,
  U+0307, \<^verbatim>\<open>p\<close>, which no folding of bytes produces.
\<close>

definition is_ascii :: "char \<Rightarrow> bool" where
  "is_ascii c = (\<not> digit7 c)"

definition str_lower :: "env \<Rightarrow> string \<Rightarrow> string" where
  "str_lower E s = (if list_all is_ascii s then lower s else unicode_lower E s)"

text \<open>
  \<^verbatim>\<open>
    file_ext = os.path.splitext(archive_path)[1].lower()
    if file_ext == '.zip':
        with zipfile.ZipFile(archive_path, 'r') as zip_ref: zip_ref.extractall(extract_to)
    elif file_ext in ['.tar', '.gz', '.tgz']:
        with tarfile.open(archive_path, 'r:*') as tar_ref: tar_ref.extractall(extract_to)
    else:
        raise ValueError(f"Unsupported archive format: {file_ext}")
  \<close>
  \<open>file_ext\<close> is \<open>str_lower E ext\<close>, and the message is built from it. Its comparisons
  with the four ASCII literals are written on \<open>lower ext\<close>, which decides them all the
  same: on an ASCII \<open>ext\<close> the two strings are equal, and an \<open>ext\<close> with a character
  outside ASCII equals none of the four under either, because no such character
  lower-cases to a dot or to one of the letters z, i, p, t, a, r, g alone (the only
  characters outside ASCII whose lower case has an ASCII letter in it are U+212A, which
  gives k, and U+0130, which gives i followed by U+0307).
  Opening the archive and unpacking it are logged as one call.
\<close>

definition extract_archive :: "env \<Rightarrow> string \<Rightarrow> string \<Rightarrow> unit action" where
  "extract_archive E path extract_to =
     (let ext = snd (splitext (os_platform E) path);
          file_ext = str_lower E ext
      in if lower ext = ''.zip'' then
           call (ZipExtractall path extract_to) (zip_extractall E path extract_to)
         else if lower ext \<in> set [''.tar'', ''.gz'', ''.tgz''] then
           call (TarExtractall path extract_to) (tar_extractall E path extract_to)
         else raise (ValueError (''Unsupported archive format: '' @ file_ext)))"

subsection \<open>\<^verbatim>\<open>WorkerThread.create_github_repo\<close>\<close>

text \<open>\<^verbatim>\<open>response.json()\<close>: the parsed body, or the parser's exception.\<close>

definition response_json :: "response \<Rightarrow> json action" where
  "response_json r = (case json_body r of Inr v \<Rightarrow> ret v | Inl e \<Rightarrow> raise e)"

text \<open>\<^verbatim>\<open>v.get(k, default)\<close>: only a \<^verbatim>\<open>dict\<close> has the method.\<close>

definition dict_get :: "json \<Rightarrow> string \<Rightarrow> json \<Rightarrow> json action" where
  "dict_get v k dflt =
     (case v of
        JObj kvs \<Rightarrow> ret (case map_of kvs k of Some x \<Rightarrow> x | None \<Rightarrow> dflt)
      | _ \<Rightarrow> raise (AttributeError
               (CHR 0x27 # type_name v @ CHR 0x27 # '' object has no attribute '' @
                CHR 0x27 # ''get'' @ [CHR 0x27])))"

text \<open>\<^verbatim>\<open>v[k]\<close> for a string key \<open>k\<close> (messages as of CPython 3.11).\<close>

definition subscript :: "json \<Rightarrow> string \<Rightarrow> json action" where
  "subscript v k =
     (case v of
        JObj kvs \<Rightarrow> (case map_of kvs k of Some x \<Rightarrow> ret x | None \<Rightarrow> raise (KeyError k))
      | JArr _ \<Rightarrow> raise (TypeError ''list indices must be integers or slices, not str'')
      | JStr _ \<Rightarrow> raise (TypeError (''string indices must be integers, not '' @
                                   CHR 0x27 # ''str'' @ [CHR 0x27]))
      | _ \<Rightarrow> raise (TypeError (CHR 0x27 # type_name v @ CHR 0x27 # '' object is not subscriptable'')))"

text \<open>
  \<^verbatim>\<open>
    url = "https://api.github.com/user/repos"
    headers = {"Authorization": f"token {self.github_token}",
               "Accept": "application/vnd.github.v3+json"}
    data = {"name": self.repo_name, "private": self.is_private}
    response = requests.post(url, headers=headers, data=json.dumps(data))
    if response.status_code not in [200, 201]:
        raise Exception(f"Failed to create GitHub repository: "
                        f"{response.json().get('message', response.text)}")
    return response.json()["html_url"]
  \<close>
  The request body is logged as the dictionary that \<^verbatim>\<open>json.dumps\<close> serialises.
\<close>

definition create_github_repo :: "env \<Rightarrow> job \<Rightarrow> json action" where
  "create_github_repo E j =
     (let url = ''https://api.github.com/user/repos'';
          headers = [(''Authorization'', ''token '' @ github_token j),
                     (''Accept'', ''application/vnd.github.v3+json'')];
          data = JObj [(''name'', JStr (repo_name j)), (''private'', JBool (is_private j))]
      in seq (call_val (HttpPost url headers data) (requests_post E url headers data))
           (\<lambda>response.
              if status_code response \<notin> set [200, 201] then
                seq (response_json response) (\<lambda>body.
                seq (dict_get body ''message'' (JStr (text_body response))) (\<lambda>m.
                raise (Exception (''Failed to create GitHub repository: '' @
                                  format_value (str_other E) m))))
              else
                seq (response_json response) (\<lambda>body. subscript body ''html_url'')))"

subsection \<open>\<^verbatim>\<open>WorkerThread.cleanup\<close>\<close>

text \<open>
  \<^verbatim>\<open>
    if self.temp_dir and os.path.exists(self.temp_dir):
        try:
            shutil.rmtree(self.temp_dir)
        except Exception as e:
            self.update_status.emit(f"Warning: Failed to clean up temporary directory: {str(e)}")
  \<close>
  \<^verbatim>\<open>self.temp_dir\<close> is falsy when it is \<^verbatim>\<open>None\<close> or the empty string, and then
  \<^verbatim>\<open>os.path.exists\<close> is not called.
\<close>

definition cleanup :: "env \<Rightarrow> unit action" where
  "cleanup E = (\<lambda>s.
     case temp_dir s of
       None \<Rightarrow> ret () s
     | Some d \<Rightarrow>
         if d = [] then ret () s
         else seq (emit (PathExists d)) (\<lambda>_.
                if path_exists E d then
                  try_except (call (Rmtree d) (rmtree E d))
                    (\<lambda>e. emit (Status (''Warning: Failed to clean up temporary directory: '' @
                                        exn_str e)))
                else ret ()) s)"

subsection \<open>\<^verbatim>\<open>WorkerThread.run\<close>\<close>

definition set_temp_dir :: "string \<Rightarrow> unit action" where
  "set_temp_dir d = (\<lambda>s. (Inr (), s\<lparr>temp_dir := Some d\<rparr>))"

text \<open>The body of the \<^verbatim>\<open>try\<close> block, lines 32 to 57 of the source, statement by statement.\<close>

definition run_body :: "env \<Rightarrow> job \<Rightarrow> unit action" where
  "run_body E j =
     seq (emit (Status ''Creating temporary directory...'')) (\<lambda>_.
     seq (call_val Mkdtemp (mkdtemp E)) (\<lambda>d.
     seq (set_temp_dir d) (\<lambda>_.
     seq (emit (Progress 10)) (\<lambda>_.
     seq (emit (Status (''Extracting '' @ archive_path j @ '' to temporary directory...''))) (\<lambda>_.
     seq (extract_archive E (archive_path j) d) (\<lambda>_.
     seq (emit (Progress 30)) (\<lambda>_.
     seq (emit (Status ''Initializing Git repository...'')) (\<lambda>_.
     seq (call (RepoInit d) (repo_init E d)) (\<lambda>_.
     seq (emit (Progress 40)) (\<lambda>_.
     seq (emit (Status ''Adding files to Git...'')) (\<lambda>_.
     seq (call (GitAdd d) (git_add E d)) (\<lambda>_.
     seq (emit (Progress 50)) (\<lambda>_.
     seq (emit (Status ''Committing files...'')) (\<lambda>_.
     seq (call (GitCommit d ''Initial commit'') (git_commit E d ''Initial commit'')) (\<lambda>_.
     seq (emit (Progress 60)) (\<lambda>_.
     seq (emit (Status (''Creating GitHub repository: '' @ repo_name j @ ''...''))) (\<lambda>_.
     seq (create_github_repo E j) (\<lambda>repo_url.
     seq (emit (Progress 70)) (\<lambda>_.
     seq (emit (Status ''Pushing to GitHub...'')) (\<lambda>_.
     seq (call (CreateRemote d ''origin'' repo_url) (create_remote E d ''origin'' repo_url)) (\<lambda>_.
     seq (call (GitPush d ''origin'' ''master'') (git_push E d ''origin'' ''master'')) (\<lambda>_.
     seq (emit (Progress 90)) (\<lambda>_.
     seq (emit (Status ''Cleaning up temporary files...'')) (\<lambda>_.
     seq (cleanup E) (\<lambda>_.
     seq (emit (Progress 100)) (\<lambda>_.
     emit (Complete True (''Successfully uploaded to '' @ format_value (str_other E) repo_url))
     ))))))))))))))))))))))))))"

text \<open>
  \<^verbatim>\<open>
    except Exception as e:
        self.update_status.emit(f"Error: {str(e)}")
        self.operation_complete.emit(False, str(e))
        self.cleanup()
  \<close>
\<close>

definition run_handler :: "env \<Rightarrow> exn \<Rightarrow> unit action" where
  "run_handler E e =
     seq (emit (Status (''Error: '' @ exn_str e))) (\<lambda>_.
     seq (emit (Complete False (exn_str e))) (\<lambda>_.
     cleanup E))"

definition run :: "env \<Rightarrow> job \<Rightarrow> unit action" where
  "run E j = try_except (run_body E j) (run_handler E)"

text \<open>The log of one run of a fresh worker.\<close>

definition run_trace :: "env \<Rightarrow> job \<Rightarrow> event list" where
  "run_trace E j = trace (snd (run E j init_state))"

subsection \<open>\<^verbatim>\<open>AutoGitUploader.upload_to_github\<close>\<close>

text \<open>The widgets the method reads.\<close>

record form =
  archive_path_edit :: string
  repo_name_edit :: string
  github_username_edit :: string
  github_token_edit :: string
  private_repo_checkbox :: bool
  save_username_checkbox :: bool

text \<open>What the method does to the window, the settings store and the worker.\<close>

datatype gui_event =
    WarningBox string string
  | SettingsSetValue string string
  | SettingsRemove string
  | StatusClear
  | ProgressBarSet int
  | SetUiEnabled bool
  | WorkerStart job

text \<open>Lines 240 to 272. \<^verbatim>\<open>not s\<close> holds of the empty string only. Connecting the three
  signals is wiring and is not logged; \<^verbatim>\<open>self.worker.start()\<close> is \<open>WorkerStart\<close>.\<close>

definition upload_to_github :: "env \<Rightarrow> form \<Rightarrow> gui_event list" where
  "upload_to_github E f =
     (let path = archive_path_edit f;
          name = repo_name_edit f;
          username = github_username_edit f;
          token = github_token_edit f;
          private = private_repo_checkbox f
      in if path = [] then
           [WarningBox ''Error'' ''Please select an archive file.'']
         else if \<not> path_exists E path then
           [WarningBox ''Error'' ''Selected archive file does not exist.'']
         else if name = [] then
           [WarningBox ''Error'' ''Please enter a repository name.'']
         else if username = [] then
           [WarningBox ''Error'' ''Please enter your GitHub username.'']
         else if token = [] then
           [WarningBox ''Error'' ''Please enter your GitHub token.'']
         else
           (if save_username_checkbox f then SettingsSetValue ''github_username'' username
            else SettingsRemove ''github_username'') #
           [StatusClear, ProgressBarSet 0, SetUiEnabled False,
            WorkerStart \<lparr>archive_path = path, repo_name = name,
                         github_username = username, github_token = token,
                         is_private = private\<rparr>])"

subsection \<open>What a log looks like\<close>

text \<open>The events \<^const>\<open>cleanup\<close> appends, given \<^verbatim>\<open>self.temp_dir\<close>; lemma \<open>cleanup_eq\<close> below
  relates this list to the function.\<close>

definition cleanup_events :: "env \<Rightarrow> string option \<Rightarrow> event list" where
  "cleanup_events E td =
     (case td of
        None \<Rightarrow> []
      | Some d \<Rightarrow>
          if d = [] then []
          else PathExists d #
               (if path_exists E d then
                  Rmtree d #
                  (case rmtree E d of
                     None \<Rightarrow> []
                   | Some e \<Rightarrow> [Status (''Warning: Failed to clean up temporary directory: '' @
                                        exn_str e)])
                else []))"

text \<open>The events \<^const>\<open>extract_archive\<close> appends (lemma \<open>extract_archive_eq\<close>).\<close>

definition extract_events :: "env \<Rightarrow> string \<Rightarrow> string \<Rightarrow> event list" where
  "extract_events E p d =
     (let file_ext = lower (snd (splitext (os_platform E) p))
      in if file_ext = ''.zip'' then [ZipExtractall p d]
         else if file_ext \<in> set [''.tar'', ''.gz'', ''.tgz''] then [TarExtractall p d]
         else [])"

text \<open>The one event \<^const>\<open>create_github_repo\<close> appends (lemma \<open>create_github_repo_eq\<close>).\<close>

definition post_event :: "job \<Rightarrow> event" where
  "post_event j =
     HttpPost ''https://api.github.com/user/repos''
       [(''Authorization'', ''token '' @ github_token j),
        (''Accept'', ''application/vnd.github.v3+json'')]
       (JObj [(''name'', JStr (repo_name j)), (''private'', JBool (is_private j))])"

text \<open>The events of the \<^verbatim>\<open>try\<close> block up to the call of \<^verbatim>\<open>cleanup\<close>, for the working
  directory \<open>d\<close> and the remote address \<open>u\<close>; a run that fails logs a prefix of it
  (lemma \<open>body_shape_Inr\<close>).\<close>

definition body_events :: "env \<Rightarrow> job \<Rightarrow> string \<Rightarrow> json \<Rightarrow> event list" where
  "body_events E j d u =
     [Status ''Creating temporary directory...'', Mkdtemp, Progress 10,
      Status (''Extracting '' @ archive_path j @ '' to temporary directory...'')] @
     extract_events E (archive_path j) d @
     [Progress 30, Status ''Initializing Git repository...'', RepoInit d,
      Progress 40, Status ''Adding files to Git...'', GitAdd d,
      Progress 50, Status ''Committing files...'', GitCommit d ''Initial commit'',
      Progress 60, Status (''Creating GitHub repository: '' @ repo_name j @ ''...''),
      post_event j,
      Progress 70, Status ''Pushing to GitHub...'', CreateRemote d ''origin'' u,
      GitPush d ''origin'' ''master'',
      Progress 90, Status ''Cleaning up temporary files...'']"

text \<open>What an action returns or raises when started on the fresh state.\<close>

definition result_of :: "'a action \<Rightarrow> exn + 'a" where
  "result_of m = fst (m init_state)"

subsection \<open>Observations on a log\<close>

text \<open>The values of \<^verbatim>\<open>update_progress\<close>, the lines of \<^verbatim>\<open>update_status\<close> and the arguments
  of \<^verbatim>\<open>operation_complete\<close>, each in order of emission.\<close>

fun progress_of :: "event list \<Rightarrow> int list" where
  "progress_of [] = []"
| "progress_of (Progress n # t) = n # progress_of t"
| "progress_of (_ # t) = progress_of t"

fun statuses_of :: "event list \<Rightarrow> string list" where
  "statuses_of [] = []"
| "statuses_of (Status m # t) = m # statuses_of t"
| "statuses_of (_ # t) = statuses_of t"

fun outcomes_of :: "event list \<Rightarrow> (bool \<times> string) list" where
  "outcomes_of [] = []"
| "outcomes_of (Complete b m # t) = (b, m) # outcomes_of t"
| "outcomes_of (_ # t) = outcomes_of t"

fun is_signal :: "event \<Rightarrow> bool" where
  "is_signal (Status _) = True"
| "is_signal (Progress _) = True"
| "is_signal (Complete _ _) = True"
| "is_signal _ = False"


text \<open>The two library calls of \<^verbatim>\<open>cleanup\<close>.\<close>

fun is_cleanup :: "event \<Rightarrow> bool" where
  "is_cleanup (PathExists _) = True"
| "is_cleanup (Rmtree _) = True"
| "is_cleanup _ = False"

text \<open>The library calls of a log, and the progress markers between them.\<close>

definition calls_of :: "event list \<Rightarrow> event list" where
  "calls_of t = filter (\<lambda>ev. \<not> is_signal ev) t"



text \<open>The part of a log before, and after, the first \<^verbatim>\<open>operation_complete\<close>.\<close>

fun before_report :: "event list \<Rightarrow> event list" where
  "before_report [] = []"
| "before_report (Complete b m # t) = []"
| "before_report (ev # t) = ev # before_report t"

fun after_report :: "event list \<Rightarrow> event list" where
  "after_report [] = []"
| "after_report (Complete b m # t) = t"
| "after_report (ev # t) = after_report t"

text \<open>
  The states of the specification's state machine, read off the log: a library call
  belongs to the state that performs it, \<^verbatim>\<open>operation_complete\<close> is the terminal state.
  Allocating the working directory opens \<open>Extracting\<close>, registering the remote belongs to
  \<open>Pushing\<close>. \<open>Idle\<close> is the state before the first event.
\<close>

datatype phase =
    Extracting | Initializing | Staging | Committing | CreatingRemote | Pushing
  | CleaningUp | Succeeded | Failed

fun phase_of :: "event \<Rightarrow> phase option" where
  "phase_of Mkdtemp = Some Extracting"
| "phase_of (ZipExtractall _ _) = Some Extracting"
| "phase_of (TarExtractall _ _) = Some Extracting"
| "phase_of (RepoInit _) = Some Initializing"
| "phase_of (GitAdd _) = Some Staging"
| "phase_of (GitCommit _ _) = Some Committing"
| "phase_of (HttpPost _ _ _) = Some CreatingRemote"
| "phase_of (CreateRemote _ _ _) = Some Pushing"
| "phase_of (GitPush _ _ _) = Some Pushing"
| "phase_of (PathExists _) = Some CleaningUp"
| "phase_of (Rmtree _) = Some CleaningUp"
| "phase_of (Complete b _) = Some (if b then Succeeded else Failed)"
| "phase_of (Status _) = None"
| "phase_of (Progress _) = None"

text \<open>The states a log passes through, each listed once per stay.\<close>

definition phases :: "event list \<Rightarrow> phase list" where
  "phases t = remdups_adj (List.map_filter phase_of t)"

definition work_phases :: "phase list" where
  "work_phases = [Extracting, Initializing, Staging, Committing, CreatingRemote, Pushing]"

text \<open>The decompression routine a log used.\<close>

datatype routine = ZipRoutine | TarRoutine

fun routine_of :: "event \<Rightarrow> routine option" where
  "routine_of (ZipExtractall _ _) = Some ZipRoutine"
| "routine_of (TarExtractall _ _) = Some TarRoutine"
| "routine_of _ = None"

definition routines :: "event list \<Rightarrow> routine list" where
  "routines t = List.map_filter routine_of t"

text \<open>The same path with its extension in lower case.\<close>

definition lowercase_ext :: "platform \<Rightarrow> string \<Rightarrow> string" where
  "lowercase_ext pf p = fst (splitext pf p) @ lower (snd (splitext pf p))"

subsection \<open>Concrete environments\<close>

text \<open>A stand-in for \<^verbatim>\<open>str.lower\<close> on the strings of the examples: it knows U+0130 (in
  UTF-8 the bytes C4 B0), whose lower case is i followed by U+0307 (the bytes CC 87), and
  folds the ASCII letters.\<close>

fun demo_unicode_lower :: "string \<Rightarrow> string" where
  "demo_unicode_lower (a # b # s) =
     (if a = CHR 0xC4 \<and> b = CHR 0xB0 then CHR ''i'' # CHR 0xCC # CHR 0x87 # demo_unicode_lower s
      else lower_char a # demo_unicode_lower (b # s))"
| "demo_unicode_lower s = lower s"

text \<open>The scenario of the specification: every library call succeeds and the platform
  answers 201 with the address of the new repository.\<close>

definition demo_env :: env where
  "demo_env =
     \<lparr>os_platform = Posix,
      mkdtemp = Inr ''/tmp/w'',
      zip_extractall = (\<lambda>_ _. None),
      tar_extractall = (\<lambda>_ _. None),
      repo_init = (\<lambda>_. None),
      git_add = (\<lambda>_. None),
      git_commit = (\<lambda>_ _. None),
      requests_post = (\<lambda>_ _ _. Inr \<lparr>status_code = 201, text_body = ''...'',
          json_body = Inr (JObj [(''html_url'', JStr ''https://example.test/user/myproj'')])\<rparr>),
      create_remote = (\<lambda>_ _ _. None),
      git_push = (\<lambda>_ _ _. None),
      path_exists = (\<lambda>_. True),
      rmtree = (\<lambda>_. None),
      str_other = (\<lambda>_. ''?''),
      unicode_lower = demo_unicode_lower\<rparr>"

definition demo_job :: job where
  "demo_job =
     \<lparr>archive_path = ''project.zip'', repo_name = ''myproj'', github_username = ''user'',
      github_token = ''secret'', is_private = False\<rparr>"

text \<open>The archive is not a zip file.\<close>

definition env_bad_zip :: env where
  "env_bad_zip = demo_env\<lparr>zip_extractall := (\<lambda>_ _. Some (LibError ''File is not a zip file''))\<rparr>"

text \<open>The archive holds no file, so there is nothing to commit.\<close>

definition env_commit_fails :: env where
  "env_commit_fails =
     demo_env\<lparr>git_commit := (\<lambda>_ _. Some (LibError ''nothing to commit''))\<rparr>"

text \<open>Deleting the working directory fails.\<close>

definition env_rmtree_fails :: env where
  "env_rmtree_fails = demo_env\<lparr>rmtree := (\<lambda>_. Some (LibError ''Permission denied''))\<rparr>"

text \<open>Status 502 from a gateway, with a page of HTML as body: \<^verbatim>\<open>response.json()\<close> raises.\<close>

definition response_502 :: response where
  "response_502 =
     \<lparr>status_code = 502, text_body = ''<html><body>502 Bad Gateway</body></html>'',
      json_body = Inl (LibError ''Expecting value: line 1 column 1 (char 0)'')\<rparr>"

definition env_502 :: env where
  "env_502 = demo_env\<lparr>requests_post := (\<lambda>_ _ _. Inr response_502)\<rparr>"

text \<open>Status 422 with a structured message, and status 403 with an object without one.\<close>

definition response_422 :: response where
  "response_422 =
     \<lparr>status_code = 422, text_body = ''...'',
      json_body = Inr (JObj [(''message'', JStr ''Repository creation failed.'')])\<rparr>"

definition env_422 :: env where
  "env_422 = demo_env\<lparr>requests_post := (\<lambda>_ _ _. Inr response_422)\<rparr>"

definition response_403 :: response where
  "response_403 =
     \<lparr>status_code = 403, text_body = ''{\"documentation_url\": \"d\"}'',
      json_body = Inr (JObj [(''documentation_url'', JStr ''d'')])\<rparr>"

definition env_403 :: env where
  "env_403 = demo_env\<lparr>requests_post := (\<lambda>_ _ _. Inr response_403)\<rparr>"

text \<open>A form with every field filled in.\<close>

definition demo_form :: form where
  "demo_form =
     \<lparr>archive_path_edit = ''project.zip'', repo_name_edit = ''myproj'',
      github_username_edit = ''user'', github_token_edit = ''secret'',
      private_repo_checkbox = False, save_username_checkbox = True\<rparr>"

section \<open>Properties\<close>

subsection \<open>Basic facts\<close>

lemmas act_defs = ret_def raise_def seq_def try_except_def emit_def call_def call_val_def

lemma demo_ext_rar: "lower (snd (splitext Posix ''notes.RAR'')) = ''.rar''"
  by (simp add: splitext_def rfind_def lower_def lower_char_def)

lemma demo_ext_zip: "lower (snd (splitext Posix ''project.zip'')) = ''.zip''"
  by (simp add: splitext_def rfind_def lower_def lower_char_def)

text \<open>A file name that is a dot followed by letters has no extension for \<^verbatim>\<open>splitext\<close>.\<close>

lemma dotfile_no_ext: "snd (splitext Posix ''/tmp/.zip'') = []"
  by (simp add: splitext_def rfind_def)

lemma demo_ext_targz: "lower (snd (splitext Posix ''/home/u/site.tar.gz'')) = ''.gz''"
  by (simp add: splitext_def rfind_def lower_def lower_char_def)

lemma demo_env_simps:
  "os_platform demo_env = Posix"
  "mkdtemp demo_env = Inr ''/tmp/w''"
  "zip_extractall demo_env = (\<lambda>_ _. None)"
  "tar_extractall demo_env = (\<lambda>_ _. None)"
  "repo_init demo_env = (\<lambda>_. None)"
  "git_add demo_env = (\<lambda>_. None)"
  "git_commit demo_env = (\<lambda>_ _. None)"
  "create_remote demo_env = (\<lambda>_ _ _. None)"
  "git_push demo_env = (\<lambda>_ _ _. None)"
  "path_exists demo_env = (\<lambda>_. True)"
  "rmtree demo_env = (\<lambda>_. None)"
  "unicode_lower demo_env = demo_unicode_lower"
  by (simp_all add: demo_env_def)

subsection \<open>The archive extractor\<close>

text \<open>On an ASCII string \<^verbatim>\<open>str.lower\<close> is the folding of the ASCII letters.\<close>

lemma str_lower_ascii: "list_all is_ascii s \<Longrightarrow> str_lower E s = lower s"
  by (simp add: str_lower_def)

text \<open>The path \<^verbatim>\<open>x.Z\<close>, U+0130, \<^verbatim>\<open>P\<close>: its extension is not ASCII, and its lower case is
  \<^verbatim>\<open>.zi\<close>, U+0307, \<^verbatim>\<open>p\<close>.\<close>

lemma demo_ext_dotted_I:
  "snd (splitext Posix (''x.Z'' @ [CHR 0xC4, CHR 0xB0] @ ''P'')) = ''.Z'' @ [CHR 0xC4, CHR 0xB0] @ ''P''"
  "lower (''.Z'' @ [CHR 0xC4, CHR 0xB0] @ ''P'') = ''.z'' @ [CHR 0xC4, CHR 0xB0] @ ''p''"
  "str_lower demo_env (''.Z'' @ [CHR 0xC4, CHR 0xB0] @ ''P'') = ''.zi'' @ [CHR 0xCC, CHR 0x87] @ ''p''"
  by (simp_all add: splitext_def rfind_def lower_def lower_char_def str_lower_def is_ascii_def
      demo_env_simps)

lemma demo_str_lower_rar: "str_lower demo_env ''.RAR'' = ''.rar''"
  by (simp add: str_lower_def is_ascii_def lower_def lower_char_def)

lemma demo_ext_rar_raw: "snd (splitext Posix ''notes.RAR'') = ''.RAR''"
  by (simp add: splitext_def rfind_def)

text \<open>
  Claim C4. For every archive path whose extension (the \<^verbatim>\<open>splitext\<close> extension, compared
  in lower case as the code compares it) is none of \<^verbatim>\<open>.zip\<close>, \<^verbatim>\<open>.tar\<close>, \<^verbatim>\<open>.gz\<close>, \<^verbatim>\<open>.tgz\<close>,
  \<^verbatim>\<open>extract_archive\<close> raises \<^verbatim>\<open>ValueError\<close> with the message
  \<^verbatim>\<open>Unsupported archive format: \<close> followed by the extension as \<^verbatim>\<open>str.lower\<close> returns it,
  and leaves the state as it was: no library call is made, so nothing is written to the
  destination.
\<close>

theorem extract_unsupported:
  "lower (snd (splitext (os_platform E) p)) \<notin> {''.zip'', ''.tar'', ''.gz'', ''.tgz''} \<Longrightarrow>
   extract_archive E p d s =
     (Inl (ValueError (''Unsupported archive format: '' @
                       str_lower E (snd (splitext (os_platform E) p)))), s)"
  by (simp add: extract_archive_def Let_def raise_def)

theorem extract_unsupported_witness:
  "lower (snd (splitext (os_platform demo_env) ''notes.RAR'')) \<notin>
     {''.zip'', ''.tar'', ''.gz'', ''.tgz''} \<and>
   extract_archive demo_env ''notes.RAR'' ''/tmp/w'' init_state =
     (Inl (ValueError ''Unsupported archive format: .rar''), init_state) \<and>
   extract_archive demo_env (''x.Z'' @ [CHR 0xC4, CHR 0xB0] @ ''P'') ''/tmp/w'' init_state =
     (Inl (ValueError (''Unsupported archive format: .zi'' @ [CHR 0xCC, CHR 0x87] @ ''p'')),
      init_state)"
proof -
  have h: "lower (snd (splitext (os_platform demo_env) ''notes.RAR'')) \<notin>
             {''.zip'', ''.tar'', ''.gz'', ''.tgz''}"
    by (simp add: demo_env_simps demo_ext_rar)
  have k: "lower (snd (splitext (os_platform demo_env) (''x.Z'' @ [CHR 0xC4, CHR 0xB0] @ ''P''))) \<notin>
             {''.zip'', ''.tar'', ''.gz'', ''.tgz''}"
    by (simp only: demo_env_simps demo_ext_dotted_I) simp
  have r: "extract_archive demo_env ''notes.RAR'' ''/tmp/w'' init_state =
     (Inl (ValueError ''Unsupported archive format: .rar''), init_state)"
    using extract_unsupported [OF h, of "''/tmp/w''" init_state]
    by (simp add: demo_env_simps demo_ext_rar_raw demo_str_lower_rar)
  have u: "extract_archive demo_env (''x.Z'' @ [CHR 0xC4, CHR 0xB0] @ ''P'') ''/tmp/w'' init_state =
     (Inl (ValueError (''Unsupported archive format: .zi'' @ [CHR 0xCC, CHR 0x87] @ ''p'')),
      init_state)"
    using extract_unsupported [OF k, of "''/tmp/w''" init_state]
    by (simp only: demo_env_simps demo_ext_dotted_I) simp
  show ?thesis
    using h r u by simp
qed

text \<open>
  Claim C5. For every archive path, what \<^verbatim>\<open>extract_archive\<close> does is decided by the
  extension alone: \<^verbatim>\<open>.zip\<close> makes exactly one call, of the zip routine, on the path and
  the destination; \<^verbatim>\<open>.tar\<close>, \<^verbatim>\<open>.gz\<close> and \<^verbatim>\<open>.tgz\<close> make exactly one call, of the tar
  routine; the outcome of that call is the outcome of the extraction; any other
  extension makes no call and raises \<^verbatim>\<open>ValueError\<close>.
\<close>

theorem extract_dispatch:
  "extract_archive E p d s =
     (let raw = snd (splitext (os_platform E) p); ext = lower raw in
      if ext = ''.zip'' then
        (case zip_extractall E p d of None \<Rightarrow> Inr () | Some e \<Rightarrow> Inl e,
         s\<lparr>trace := trace s @ [ZipExtractall p d]\<rparr>)
      else if ext = ''.tar'' \<or> ext = ''.gz'' \<or> ext = ''.tgz'' then
        (case tar_extractall E p d of None \<Rightarrow> Inr () | Some e \<Rightarrow> Inl e,
         s\<lparr>trace := trace s @ [TarExtractall p d]\<rparr>)
      else (Inl (ValueError (''Unsupported archive format: '' @ str_lower E raw)), s))"
  by (simp add: extract_archive_def Let_def act_defs split: option.splits)

theorem extract_dispatch_witness:
  "extract_archive demo_env ''project.zip'' ''/tmp/w'' init_state =
     (Inr (), \<lparr>temp_dir = None, trace = [ZipExtractall ''project.zip'' ''/tmp/w'']\<rparr>) \<and>
   extract_archive demo_env ''/home/u/site.tar.gz'' ''/tmp/w'' init_state =
     (Inr (), \<lparr>temp_dir = None,
               trace = [TarExtractall ''/home/u/site.tar.gz'' ''/tmp/w'']\<rparr>)"
  using extract_dispatch [of demo_env "''project.zip''" "''/tmp/w''" init_state]
    extract_dispatch [of demo_env "''/home/u/site.tar.gz''" "''/tmp/w''" init_state]
  by (simp add: demo_env_simps demo_ext_zip demo_ext_targz init_state_def)

subsection \<open>Creating the remote repository\<close>

text \<open>
  What the call does with a response: it succeeds with value \<open>u\<close> exactly when the status
  is 200 or 201 and the body is a JSON object whose \<^verbatim>\<open>html_url\<close> is \<open>u\<close>; with any other
  status it raises; and with any other status and a JSON object as body, the exception
  is \<^verbatim>\<open>Exception\<close> with the message \<^verbatim>\<open>Failed to create GitHub repository: \<close> followed by
  the object's \<^verbatim>\<open>message\<close>, or by the raw body when the object has no \<^verbatim>\<open>message\<close>.
\<close>

lemma create_repo_outcome:
  "requests_post E ''https://api.github.com/user/repos''
     [(''Authorization'', ''token '' @ github_token j),
      (''Accept'', ''application/vnd.github.v3+json'')]
     (JObj [(''name'', JStr (repo_name j)), (''private'', JBool (is_private j))]) = Inr r \<Longrightarrow>
   (fst (create_github_repo E j s) = Inr u) =
     ((status_code r = 200 \<or> status_code r = 201) \<and>
      (\<exists>kvs. json_body r = Inr (JObj kvs) \<and> map_of kvs ''html_url'' = Some u)) \<and>
   (status_code r \<noteq> 200 \<and> status_code r \<noteq> 201 \<longrightarrow> (\<exists>e. fst (create_github_repo E j s) = Inl e)) \<and>
   (\<forall>kvs. status_code r \<noteq> 200 \<and> status_code r \<noteq> 201 \<and> json_body r = Inr (JObj kvs) \<longrightarrow>
      fst (create_github_repo E j s) =
        Inl (Exception (''Failed to create GitHub repository: '' @
               format_value (str_other E)
                 (case map_of kvs ''message'' of Some m \<Rightarrow> m | None \<Rightarrow> JStr (text_body r)))))"
  by (auto simp: create_github_repo_def Let_def act_defs response_json_def dict_get_def subscript_def
      split: sum.splits json.splits option.splits)

lemma create_repo_examples:
  "fst (create_github_repo demo_env demo_job init_state) =
     Inr (JStr ''https://example.test/user/myproj'') \<and>
   fst (create_github_repo env_422 demo_job init_state) =
     Inl (Exception ''Failed to create GitHub repository: Repository creation failed.'') \<and>
   fst (create_github_repo env_403 demo_job init_state) =
     Inl (Exception (''Failed to create GitHub repository: '' @ text_body response_403))"
proof -
  let ?url = "''https://api.github.com/user/repos''"
  let ?hdrs = "[(''Authorization'', ''token '' @ github_token demo_job),
                (''Accept'', ''application/vnd.github.v3+json'')]"
  let ?data = "JObj [(''name'', JStr (repo_name demo_job)),
                     (''private'', JBool (is_private demo_job))]"
  let ?ok = "\<lparr>status_code = 201, text_body = ''...'',
      json_body = Inr (JObj [(''html_url'', JStr ''https://example.test/user/myproj'')])\<rparr>"
  have p1: "requests_post demo_env ?url ?hdrs ?data = Inr ?ok"
    by (simp add: demo_env_def)
  have p2: "requests_post env_422 ?url ?hdrs ?data = Inr response_422"
    by (simp add: env_422_def demo_env_def)
  have p3: "requests_post env_403 ?url ?hdrs ?data = Inr response_403"
    by (simp add: env_403_def demo_env_def)
  have s2: "str_other env_422 = (\<lambda>_. ''?'')" "str_other env_403 = (\<lambda>_. ''?'')"
    by (simp_all add: env_422_def env_403_def demo_env_def)
  show ?thesis
    using create_repo_outcome [OF p1, of init_state "JStr ''https://example.test/user/myproj''"]
      create_repo_outcome [OF p2, of init_state]
      create_repo_outcome [OF p3, of init_state]
    by (simp add: response_422_def response_403_def format_value_def s2)
qed

text \<open>A body that does not parse: whatever the status, the call raises the parser's
  exception. The fallback to the raw body is the default of \<^verbatim>\<open>.get\<close> on the parsed body,
  so it is reached only when the body parses.\<close>

lemma create_repo_body_not_json:
  "requests_post E ''https://api.github.com/user/repos''
     [(''Authorization'', ''token '' @ github_token j),
      (''Accept'', ''application/vnd.github.v3+json'')]
     (JObj [(''name'', JStr (repo_name j)), (''private'', JBool (is_private j))]) = Inr r \<Longrightarrow>
   json_body r = Inl e \<Longrightarrow> fst (create_github_repo E j s) = Inl e"
  by (simp add: create_github_repo_def Let_def act_defs response_json_def)

subsection \<open>The submission form\<close>

text \<open>
  Claim C9. For every submission with an empty archive path, an archive path that does
  not exist, an empty repository name, an empty user name or an empty token, the method
  shows exactly one warning box and does nothing else; in particular no worker is
  started. The message is that of the first check that fails, in the order just given,
  and the five messages are pairwise distinct.
\<close>

theorem validation_rejects:
  "archive_path_edit f = [] \<or> \<not> path_exists E (archive_path_edit f) \<or>
   repo_name_edit f = [] \<or> github_username_edit f = [] \<or> github_token_edit f = [] \<Longrightarrow>
   upload_to_github E f =
     [WarningBox ''Error''
       (if archive_path_edit f = [] then ''Please select an archive file.''
        else if \<not> path_exists E (archive_path_edit f) then
          ''Selected archive file does not exist.''
        else if repo_name_edit f = [] then ''Please enter a repository name.''
        else if github_username_edit f = [] then ''Please enter your GitHub username.''
        else ''Please enter your GitHub token.'')] \<and>
   (\<forall>j. WorkerStart j \<notin> set (upload_to_github E f)) \<and>
   distinct [''Please select an archive file.'', ''Selected archive file does not exist.'',
             ''Please enter a repository name.'', ''Please enter your GitHub username.'',
             ''Please enter your GitHub token.'']"
  by (auto simp: upload_to_github_def Let_def)

theorem validation_rejects_witness:
  "upload_to_github demo_env (demo_form\<lparr>archive_path_edit := []\<rparr>) =
     [WarningBox ''Error'' ''Please select an archive file.''] \<and>
   upload_to_github (demo_env\<lparr>path_exists := (\<lambda>_. False)\<rparr>) demo_form =
     [WarningBox ''Error'' ''Selected archive file does not exist.''] \<and>
   upload_to_github demo_env (demo_form\<lparr>repo_name_edit := []\<rparr>) =
     [WarningBox ''Error'' ''Please enter a repository name.''] \<and>
   upload_to_github demo_env (demo_form\<lparr>github_username_edit := []\<rparr>) =
     [WarningBox ''Error'' ''Please enter your GitHub username.''] \<and>
   upload_to_github demo_env (demo_form\<lparr>github_token_edit := []\<rparr>) =
     [WarningBox ''Error'' ''Please enter your GitHub token.'']"
  using validation_rejects [of "demo_form\<lparr>archive_path_edit := []\<rparr>" demo_env]
    validation_rejects [of demo_form "demo_env\<lparr>path_exists := (\<lambda>_. False)\<rparr>"]
    validation_rejects [of "demo_form\<lparr>repo_name_edit := []\<rparr>" demo_env]
    validation_rejects [of "demo_form\<lparr>github_username_edit := []\<rparr>" demo_env]
    validation_rejects [of "demo_form\<lparr>github_token_edit := []\<rparr>" demo_env]
  by (simp add: demo_form_def demo_env_def)

text \<open>Otherwise the worker is started, on the values of the form.\<close>

lemma validation_accepts:
  "archive_path_edit f \<noteq> [] \<Longrightarrow> path_exists E (archive_path_edit f) \<Longrightarrow>
   repo_name_edit f \<noteq> [] \<Longrightarrow> github_username_edit f \<noteq> [] \<Longrightarrow> github_token_edit f \<noteq> [] \<Longrightarrow>
   last (upload_to_github E f) =
     WorkerStart \<lparr>archive_path = archive_path_edit f, repo_name = repo_name_edit f,
                  github_username = github_username_edit f, github_token = github_token_edit f,
                  is_private = private_repo_checkbox f\<rparr>"
  by (simp add: upload_to_github_def Let_def)

subsection \<open>Running the worker\<close>

lemma seq_emit: "seq (emit ev) f s = f () (s\<lparr>trace := trace s @ [ev]\<rparr>)"
  by (simp add: seq_def emit_def)

lemma emit_apply: "emit ev s = (Inr (), s\<lparr>trace := trace s @ [ev]\<rparr>)"
  by (simp add: emit_def)

lemma seq_call:
  "seq (call ev out) f s =
     (case out of
        None \<Rightarrow> f () (s\<lparr>trace := trace s @ [ev]\<rparr>)
      | Some e \<Rightarrow> (Inl e, s\<lparr>trace := trace s @ [ev]\<rparr>))"
  by (cases out) (simp_all add: act_defs)

lemma seq_call_val:
  "seq (call_val ev out) f s =
     (case out of
        Inr x \<Rightarrow> f x (s\<lparr>trace := trace s @ [ev]\<rparr>)
      | Inl e \<Rightarrow> (Inl e, s\<lparr>trace := trace s @ [ev]\<rparr>))"
  by (cases out) (simp_all add: act_defs)

lemma seq_set_temp_dir: "seq (set_temp_dir d) f s = f () (s\<lparr>temp_dir := Some d\<rparr>)"
  by (simp add: seq_def set_temp_dir_def)

lemma cleanup_eq:
  "cleanup E s = (Inr (), s\<lparr>trace := trace s @ cleanup_events E (temp_dir s)\<rparr>)"
  by (simp add: cleanup_def cleanup_events_def act_defs split: option.splits)

lemma seq_cleanup:
  "seq (cleanup E) f s = f () (s\<lparr>trace := trace s @ cleanup_events E (temp_dir s)\<rparr>)"
  by (simp add: seq_def cleanup_eq)

lemma extract_archive_eq:
  "extract_archive E p d s =
     (result_of (extract_archive E p d), s\<lparr>trace := trace s @ extract_events E p d\<rparr>)"
  by (simp add: result_of_def extract_archive_def extract_events_def Let_def act_defs
      init_state_def split: option.splits)

lemma seq_extract:
  "seq (extract_archive E p d) f s =
     (case result_of (extract_archive E p d) of
        Inl e \<Rightarrow> (Inl e, s\<lparr>trace := trace s @ extract_events E p d\<rparr>)
      | Inr x \<Rightarrow> f x (s\<lparr>trace := trace s @ extract_events E p d\<rparr>))"
  by (simp add: seq_def extract_archive_eq split: sum.splits)

lemma create_github_repo_eq:
  "create_github_repo E j s =
     (result_of (create_github_repo E j), s\<lparr>trace := trace s @ [post_event j]\<rparr>)"
  by (simp add: result_of_def create_github_repo_def post_event_def Let_def act_defs
      init_state_def response_json_def dict_get_def subscript_def
      split: option.splits sum.splits json.splits)

lemma seq_create:
  "seq (create_github_repo E j) f s =
     (case result_of (create_github_repo E j) of
        Inl e \<Rightarrow> (Inl e, s\<lparr>trace := trace s @ [post_event j]\<rparr>)
      | Inr x \<Rightarrow> f x (s\<lparr>trace := trace s @ [post_event j]\<rparr>))"
  by (simp add: seq_def create_github_repo_eq split: sum.splits)

lemmas body_simps =
  run_body_def seq_emit seq_call seq_call_val seq_set_temp_dir seq_cleanup seq_extract seq_create
  emit_apply init_state_def

text \<open>The \<^verbatim>\<open>try\<close> block when no working directory could be allocated.\<close>

lemma body_shape_Inl:
  "mkdtemp E = Inl e \<Longrightarrow>
   run_body E j init_state =
     (Inl e, \<lparr>temp_dir = None,
              trace = [Status ''Creating temporary directory...'', Mkdtemp]\<rparr>)"
  by (simp add: body_simps)

text \<open>The first step that raises ends the \<^verbatim>\<open>try\<close> block: the block raises that step's
  exception, and its log stops at that step's call.\<close>

lemma run_body_first_failure:
  assumes "mkdtemp E = Inr d"
  shows
    "result_of (extract_archive E (archive_path j) d) = Inl e \<Longrightarrow>
     run_body E j init_state =
       (Inl e, \<lparr>temp_dir = Some d,
                trace = [Status ''Creating temporary directory...'', Mkdtemp, Progress 10,
                         Status (''Extracting '' @ archive_path j @
                                 '' to temporary directory...'')] @
                        extract_events E (archive_path j) d\<rparr>)"
    and
    "result_of (extract_archive E (archive_path j) d) = Inr () \<Longrightarrow> repo_init E d = Some e \<Longrightarrow>
     run_body E j init_state =
       (Inl e, \<lparr>temp_dir = Some d,
                trace = [Status ''Creating temporary directory...'', Mkdtemp, Progress 10,
                         Status (''Extracting '' @ archive_path j @
                                 '' to temporary directory...'')] @
                        extract_events E (archive_path j) d @
                        [Progress 30, Status ''Initializing Git repository...'', RepoInit d]\<rparr>)"
    and
    "result_of (extract_archive E (archive_path j) d) = Inr () \<Longrightarrow> repo_init E d = None \<Longrightarrow>
     git_add E d = Some e \<Longrightarrow>
     run_body E j init_state =
       (Inl e, \<lparr>temp_dir = Some d,
                trace = [Status ''Creating temporary directory...'', Mkdtemp, Progress 10,
                         Status (''Extracting '' @ archive_path j @
                                 '' to temporary directory...'')] @
                        extract_events E (archive_path j) d @
                        [Progress 30, Status ''Initializing Git repository...'', RepoInit d,
                         Progress 40, Status ''Adding files to Git...'', GitAdd d]\<rparr>)"
    and
    "result_of (extract_archive E (archive_path j) d) = Inr () \<Longrightarrow> repo_init E d = None \<Longrightarrow>
     git_add E d = None \<Longrightarrow> git_commit E d ''Initial commit'' = Some e \<Longrightarrow>
     run_body E j init_state =
       (Inl e, \<lparr>temp_dir = Some d,
                trace = [Status ''Creating temporary directory...'', Mkdtemp, Progress 10,
                         Status (''Extracting '' @ archive_path j @
                                 '' to temporary directory...'')] @
                        extract_events E (archive_path j) d @
                        [Progress 30, Status ''Initializing Git repository...'', RepoInit d,
                         Progress 40, Status ''Adding files to Git...'', GitAdd d,
                         Progress 50, Status ''Committing files...'',
                         GitCommit d ''Initial commit'']\<rparr>)"
    and
    "result_of (extract_archive E (archive_path j) d) = Inr () \<Longrightarrow> repo_init E d = None \<Longrightarrow>
     git_add E d = None \<Longrightarrow> git_commit E d ''Initial commit'' = None \<Longrightarrow>
     result_of (create_github_repo E j) = Inl e \<Longrightarrow>
     run_body E j init_state =
       (Inl e, \<lparr>temp_dir = Some d,
                trace = [Status ''Creating temporary directory...'', Mkdtemp, Progress 10,
                         Status (''Extracting '' @ archive_path j @
                                 '' to temporary directory...'')] @
                        extract_events E (archive_path j) d @
                        [Progress 30, Status ''Initializing Git repository...'', RepoInit d,
                         Progress 40, Status ''Adding files to Git...'', GitAdd d,
                         Progress 50, Status ''Committing files...'',
                         GitCommit d ''Initial commit'',
                         Progress 60,
                         Status (''Creating GitHub repository: '' @ repo_name j @ ''...''),
                         post_event j]\<rparr>)"
    and
    "result_of (extract_archive E (archive_path j) d) = Inr () \<Longrightarrow> repo_init E d = None \<Longrightarrow>
     git_add E d = None \<Longrightarrow> git_commit E d ''Initial commit'' = None \<Longrightarrow>
     result_of (create_github_repo E j) = Inr u \<Longrightarrow> create_remote E d ''origin'' u = Some e \<Longrightarrow>
     run_body E j init_state =
       (Inl e, \<lparr>temp_dir = Some d,
                trace = [Status ''Creating temporary directory...'', Mkdtemp, Progress 10,
                         Status (''Extracting '' @ archive_path j @
                                 '' to temporary directory...'')] @
                        extract_events E (archive_path j) d @
                        [Progress 30, Status ''Initializing Git repository...'', RepoInit d,
                         Progress 40, Status ''Adding files to Git...'', GitAdd d,
                         Progress 50, Status ''Committing files...'',
                         GitCommit d ''Initial commit'',
                         Progress 60,
                         Status (''Creating GitHub repository: '' @ repo_name j @ ''...''),
                         post_event j,
                         Progress 70, Status ''Pushing to GitHub...'',
                         CreateRemote d ''origin'' u]\<rparr>)"
    and
    "result_of (extract_archive E (archive_path j) d) = Inr () \<Longrightarrow> repo_init E d = None \<Longrightarrow>
     git_add E d = None \<Longrightarrow> git_commit E d ''Initial commit'' = None \<Longrightarrow>
     result_of (create_github_repo E j) = Inr u \<Longrightarrow> create_remote E d ''origin'' u = None \<Longrightarrow>
     git_push E d ''origin'' ''master'' = Some e \<Longrightarrow>
     run_body E j init_state =
       (Inl e, \<lparr>temp_dir = Some d,
                trace = [Status ''Creating temporary directory...'', Mkdtemp, Progress 10,
                         Status (''Extracting '' @ archive_path j @
                                 '' to temporary directory...'')] @
                        extract_events E (archive_path j) d @
                        [Progress 30, Status ''Initializing Git repository...'', RepoInit d,
                         Progress 40, Status ''Adding files to Git...'', GitAdd d,
                         Progress 50, Status ''Committing files...'',
                         GitCommit d ''Initial commit'',
                         Progress 60,
                         Status (''Creating GitHub repository: '' @ repo_name j @ ''...''),
                         post_event j,
                         Progress 70, Status ''Pushing to GitHub...'',
                         CreateRemote d ''origin'' u, GitPush d ''origin'' ''master'']\<rparr>)"
  using assms by (simp_all add: body_simps)

text \<open>The \<^verbatim>\<open>try\<close> block after the working directory \<open>d\<close> was allocated: if it raises,
  its log is a prefix of \<^const>\<open>body_events\<close>; if it returns, its log is all of it, then
  the events of \<^const>\<open>cleanup\<close>, then the last two signals.\<close>

lemma body_shape_pair:
  assumes "mkdtemp E = Inr d"
  shows "case run_body E j init_state of
           (r, s) \<Rightarrow>
             \<exists>u. (\<forall>e. r = Inl e \<longrightarrow> prefix (trace s) (body_events E j d u)) \<and>
                 (\<forall>x. r = Inr x \<longrightarrow>
                    result_of (create_github_repo E j) = Inr u \<and>
                    trace s =
                      body_events E j d u @ cleanup_events E (Some d) @
                      [Progress 100,
                       Complete True (''Successfully uploaded to '' @
                                      format_value (str_other E) u)]) \<and>
                 temp_dir s = Some d \<and> Mkdtemp \<in> set (trace s)"
  using assms
  apply (cases "result_of (extract_archive E (archive_path j) d)")
   apply (simp add: body_simps body_events_def)
  apply (cases "repo_init E d")
   prefer 2
   apply (simp add: body_simps body_events_def)
  apply (cases "git_add E d")
   prefer 2
   apply (simp add: body_simps body_events_def)
  apply (cases "git_commit E d ''Initial commit''")
   prefer 2
   apply (simp add: body_simps body_events_def)
  apply (cases "result_of (create_github_repo E j)")
   apply (simp add: body_simps body_events_def)
  subgoal for x1 u
    apply (cases "create_remote E d ''origin'' u")
     prefer 2
     apply (simp add: body_simps body_events_def)
    apply (cases "git_push E d ''origin'' ''master''")
     prefer 2
     apply (simp add: body_simps body_events_def)
    apply (simp add: body_simps body_events_def)
    done
  done

lemma body_shape_Inr:
  assumes "mkdtemp E = Inr d"
  shows "\<exists>u. (\<forall>e. fst (run_body E j init_state) = Inl e \<longrightarrow>
                 prefix (trace (snd (run_body E j init_state))) (body_events E j d u)) \<and>
             (\<forall>x. fst (run_body E j init_state) = Inr x \<longrightarrow>
                 result_of (create_github_repo E j) = Inr u \<and>
                 trace (snd (run_body E j init_state)) =
                   body_events E j d u @ cleanup_events E (Some d) @
                   [Progress 100,
                    Complete True (''Successfully uploaded to '' @
                                   format_value (str_other E) u)]) \<and>
             temp_dir (snd (run_body E j init_state)) = Some d \<and>
             Mkdtemp \<in> set (trace (snd (run_body E j init_state)))"
  using body_shape_pair [OF assms, of j]
  by (cases "run_body E j init_state") simp

text \<open>The log of a run, from the outcome of the \<^verbatim>\<open>try\<close> block.\<close>

lemma run_trace_eq:
  "run_trace E j =
     (case run_body E j init_state of
        (Inl e, s) \<Rightarrow>
          trace s @ [Status (''Error: '' @ exn_str e), Complete False (exn_str e)] @
          cleanup_events E (temp_dir s)
      | (Inr x, s) \<Rightarrow> trace s)"
  by (simp add: run_trace_def run_def run_handler_def try_except_def seq_emit cleanup_eq
      split: prod.splits sum.splits)

subsection \<open>Facts about logs, and the failing run\<close>

lemma progress_of_append: "progress_of (a @ b) = progress_of a @ progress_of b"
  by (induction a rule: progress_of.induct) simp_all

lemma statuses_of_append: "statuses_of (a @ b) = statuses_of a @ statuses_of b"
  by (induction a rule: statuses_of.induct) simp_all

lemma outcomes_of_append: "outcomes_of (a @ b) = outcomes_of a @ outcomes_of b"
  by (induction a rule: outcomes_of.induct) simp_all

lemma before_report_append:
  "outcomes_of a = [] \<Longrightarrow> before_report (a @ b) = a @ before_report b"
  by (induction a rule: before_report.induct) simp_all

lemma after_report_append:
  "outcomes_of a = [] \<Longrightarrow> after_report (a @ b) = after_report b"
  by (induction a rule: after_report.induct) simp_all

lemma map_filter_append:
  "List.map_filter f (a @ b) = List.map_filter f a @ List.map_filter f b"
  by (simp add: List.map_filter_def)

lemma prefix_map_filter:
  "prefix a b \<Longrightarrow> prefix (List.map_filter f a) (List.map_filter f b)"
  by (auto simp: prefix_def map_filter_append)

lemma prefix_filter: "prefix a b \<Longrightarrow> prefix (filter P a) (filter P b)"
  by (auto simp: prefix_def)

lemma prefix_outcomes_of: "prefix a b \<Longrightarrow> prefix (outcomes_of a) (outcomes_of b)"
  by (auto simp: prefix_def outcomes_of_append)

lemma extract_events_cases:
  "extract_events E p d = [] \<or> extract_events E p d = [ZipExtractall p d] \<or>
   extract_events E p d = [TarExtractall p d]"
  by (simp add: extract_events_def Let_def)

lemma cleanup_events_cases:
  "cleanup_events E td = [] \<or>
   (\<exists>d. td = Some d \<and> d \<noteq> [] \<and>
     (cleanup_events E td = [PathExists d] \<or>
      cleanup_events E td = [PathExists d, Rmtree d] \<or>
      (\<exists>e. rmtree E d = Some e \<and> cleanup_events E td =
         [PathExists d, Rmtree d,
          Status (''Warning: Failed to clean up temporary directory: '' @ exn_str e)])))"
  by (simp add: cleanup_events_def split: option.splits)

lemma outcomes_of_cleanup [simp]: "outcomes_of (cleanup_events E td) = []"
  using cleanup_events_cases [of E td] by auto

lemma progress_of_cleanup [simp]: "progress_of (cleanup_events E td) = []"
  using cleanup_events_cases [of E td] by auto

lemma outcomes_of_body [simp]: "outcomes_of (body_events E j d u) = []"
  using extract_events_cases [of E "archive_path j" d]
  by (auto simp: body_events_def post_event_def outcomes_of_append)

lemma cleanup_of_body [simp]: "filter is_cleanup (body_events E j d u) = []"
  using extract_events_cases [of E "archive_path j" d]
  by (auto simp: body_events_def post_event_def)

lemma progress_of_body [simp]:
  "progress_of (body_events E j d u) = [10, 30, 40, 50, 60, 70, 90]"
  using extract_events_cases [of E "archive_path j" d]
  by (auto simp: body_events_def post_event_def progress_of_append)

lemma prefix_body_outcomes: "prefix pre (body_events E j d u) \<Longrightarrow> outcomes_of pre = []"
  using prefix_outcomes_of [of pre "body_events E j d u"] by simp

lemma prefix_body_cleanup: "prefix pre (body_events E j d u) \<Longrightarrow> filter is_cleanup pre = []"
  using prefix_filter [of pre "body_events E j d u" is_cleanup] by simp

lemma result_of_extract:
  "result_of (extract_archive E p d) =
     (let raw = snd (splitext (os_platform E) p); ext = lower raw in
      if ext = ''.zip'' then (case zip_extractall E p d of None \<Rightarrow> Inr () | Some e \<Rightarrow> Inl e)
      else if ext = ''.tar'' \<or> ext = ''.gz'' \<or> ext = ''.tgz'' then
        (case tar_extractall E p d of None \<Rightarrow> Inr () | Some e \<Rightarrow> Inl e)
      else Inl (ValueError (''Unsupported archive format: '' @ str_lower E raw)))"
  by (simp add: result_of_def extract_archive_def Let_def act_defs split: option.splits)

lemma run_body_bad_zip:
  "run_body env_bad_zip demo_job init_state =
     (Inl (LibError ''File is not a zip file''),
      \<lparr>temp_dir = Some ''/tmp/w'',
       trace = [Status ''Creating temporary directory...'', Mkdtemp, Progress 10,
                Status ''Extracting project.zip to temporary directory...'',
                ZipExtractall ''project.zip'' ''/tmp/w'']\<rparr>)"
  by (simp add: body_simps result_of_extract extract_events_def env_bad_zip_def demo_env_simps
      demo_job_def demo_ext_zip)

text \<open>
  Every failing run: what the \<^verbatim>\<open>try\<close> block had logged holds no report and no call of
  \<^verbatim>\<open>cleanup\<close>; then come the status line \<^verbatim>\<open>Error: \<close> with the text of the exception, the
  terminal failure with the same text, and only after it the events of \<^verbatim>\<open>cleanup\<close>.
\<close>

lemma failure_reported_then_cleanup:
  "fst (run_body E j init_state) = Inl e \<Longrightarrow>
   \<exists>pre. run_trace E j =
           pre @ [Status (''Error: '' @ exn_str e), Complete False (exn_str e)] @
           cleanup_events E (case mkdtemp E of Inl _ \<Rightarrow> None | Inr d \<Rightarrow> Some d) \<and>
         outcomes_of pre = [] \<and> filter is_cleanup pre = []"
proof (cases "mkdtemp E")
  case (Inl e')
  assume "fst (run_body E j init_state) = Inl e"
  with Inl show ?thesis
    by (simp add: run_trace_eq body_shape_Inl)
next
  case (Inr d)
  assume f: "fst (run_body E j init_state) = Inl e"
  obtain s where rb: "run_body E j init_state = (Inl e, s)"
    using f by (cases "run_body E j init_state") simp
  from body_shape_Inr [OF Inr, of j] rb obtain u
    where pre: "prefix (trace s) (body_events E j d u)" and td: "temp_dir s = Some d"
    by auto
  show ?thesis
    using prefix_body_outcomes [OF pre] prefix_body_cleanup [OF pre]
    by (simp add: run_trace_eq rb td Inr)
qed

text \<open>
  Claim C1. The message of the terminal failure is the text of the exception, as the
  claim says. The order is not the claimed one: the handler (lines 58 to 61) emits the
  failure and then calls \<^verbatim>\<open>cleanup\<close>, whereas the success path (lines 55 to 57) calls
  \<^verbatim>\<open>cleanup\<close> and then reports. In the run below the archive is not a zip file; the
  working directory still exists when the failure is reported, and its deletion is logged
  after the report.
\<close>

theorem bad_zip_run_reports_before_cleanup:
  "run_trace env_bad_zip demo_job =
     [Status ''Creating temporary directory...'', Mkdtemp, Progress 10,
      Status ''Extracting project.zip to temporary directory...'',
      ZipExtractall ''project.zip'' ''/tmp/w'',
      Status ''Error: File is not a zip file'',
      Complete False ''File is not a zip file'',
      PathExists ''/tmp/w'', Rmtree ''/tmp/w''] \<and>
   Rmtree ''/tmp/w'' \<notin> set (before_report (run_trace env_bad_zip demo_job)) \<and>
   Rmtree ''/tmp/w'' \<in> set (after_report (run_trace env_bad_zip demo_job))"
  by (simp add: run_trace_eq run_body_bad_zip)
    (simp add: cleanup_events_def env_bad_zip_def demo_env_simps)

subsection \<open>An error page for an answer\<close>

lemma run_body_502:
  "run_body env_502 demo_job init_state =
     (Inl (LibError ''Expecting value: line 1 column 1 (char 0)''),
      \<lparr>temp_dir = Some ''/tmp/w'',
       trace = [Status ''Creating temporary directory...'', Mkdtemp, Progress 10,
                Status ''Extracting project.zip to temporary directory...'',
                ZipExtractall ''project.zip'' ''/tmp/w'',
                Progress 30, Status ''Initializing Git repository...'', RepoInit ''/tmp/w'',
                Progress 40, Status ''Adding files to Git...'', GitAdd ''/tmp/w'',
                Progress 50, Status ''Committing files...'',
                GitCommit ''/tmp/w'' ''Initial commit'',
                Progress 60, Status ''Creating GitHub repository: myproj...'',
                post_event demo_job]\<rparr>)"
proof -
  have f: "os_platform env_502 = Posix" "mkdtemp env_502 = Inr ''/tmp/w''"
    "zip_extractall env_502 = (\<lambda>_ _. None)" "repo_init env_502 = (\<lambda>_. None)"
    "git_add env_502 = (\<lambda>_. None)" "git_commit env_502 = (\<lambda>_ _. None)"
    by (simp_all add: env_502_def demo_env_simps)
  have c: "\<And>j. result_of (create_github_repo env_502 j) =
             Inl (LibError ''Expecting value: line 1 column 1 (char 0)'')"
    by (simp add: result_of_def create_github_repo_def Let_def act_defs response_json_def
        env_502_def demo_env_def response_502_def init_state_def)
  show ?thesis
    by (simp add: body_simps result_of_extract c extract_events_def f demo_job_def demo_ext_zip)
qed

text \<open>
  Claim C3. With a JSON object for a body the code does what the claim says (lemma
  \<open>create_repo_outcome\<close>). It does not for every non-success status. In the run below a
  gateway answers 502 with a page of HTML: there is no structured message, and the claim
  has the job fail with the raw HTTP body. The code calls \<^verbatim>\<open>response.json()\<close> before it
  can fall back, that call raises, and the job fails with the text of the parser's
  exception; the raw body is no part of the message.
\<close>

theorem create_repo_html_error_body:
  "status_code response_502 = 502 \<and>
   text_body response_502 = ''<html><body>502 Bad Gateway</body></html>'' \<and>
   fst (create_github_repo env_502 demo_job init_state) =
     Inl (LibError ''Expecting value: line 1 column 1 (char 0)'') \<and>
   outcomes_of (run_trace env_502 demo_job) =
     [(False, ''Expecting value: line 1 column 1 (char 0)'')]"
  by (simp add: run_trace_eq run_body_502 outcomes_of_append post_event_def)
    (simp add: create_github_repo_def Let_def act_defs response_json_def
      env_502_def demo_env_def response_502_def)

subsection \<open>The successful run\<close>

lemma body_success:
  assumes "fst (run_body E j init_state) = Inr x"
  obtains d u where "mkdtemp E = Inr d" "result_of (create_github_repo E j) = Inr u"
    "run_trace E j =
       body_events E j d u @ cleanup_events E (Some d) @
       [Progress 100,
        Complete True (''Successfully uploaded to '' @ format_value (str_other E) u)]"
proof (cases "mkdtemp E")
  case (Inl e)
  with assms show ?thesis
    by (simp add: body_shape_Inl)
next
  case (Inr d)
  obtain s where rb: "run_body E j init_state = (Inr x, s)"
    using assms by (cases "run_body E j init_state") simp
  from body_shape_Inr [OF Inr, of j] rb obtain u
    where "result_of (create_github_repo E j) = Inr u"
      and "trace s = body_events E j d u @ cleanup_events E (Some d) @
             [Progress 100,
              Complete True (''Successfully uploaded to '' @ format_value (str_other E) u)]"
    by auto
  with Inr rb that show ?thesis
    by (simp add: run_trace_eq)
qed




lemma result_of_create_demo:
  "result_of (create_github_repo demo_env j) = Inr (JStr ''https://example.test/user/myproj'')"
  by (simp add: result_of_def create_github_repo_def Let_def act_defs response_json_def
      subscript_def demo_env_def init_state_def)

lemma run_body_demo:
  "run_body demo_env demo_job init_state =
     (Inr (),
      \<lparr>temp_dir = Some ''/tmp/w'',
       trace = body_events demo_env demo_job ''/tmp/w'' (JStr ''https://example.test/user/myproj'') @
               [PathExists ''/tmp/w'', Rmtree ''/tmp/w'', Progress 100,
                Complete True ''Successfully uploaded to https://example.test/user/myproj'']\<rparr>)"
  by (simp add: body_simps result_of_extract result_of_create_demo extract_events_def
      body_events_def cleanup_events_def format_value_def demo_env_simps demo_job_def demo_ext_zip)





subsection \<open>The order of the states\<close>

lemma phases_of_extract:
  "List.map_filter phase_of (extract_events E p d) = [] \<or>
   List.map_filter phase_of (extract_events E p d) = [Extracting]"
  using extract_events_cases [of E p d] by (auto simp: List.map_filter_def)

lemma phases_of_body:
  "List.map_filter phase_of (body_events E j d u) =
     Extracting # List.map_filter phase_of (extract_events E (archive_path j) d) @
     [Initializing, Staging, Committing, CreatingRemote, Pushing, Pushing]"
  by (simp add: body_events_def post_event_def map_filter_append)

lemma phases_of_cleanup:
  "List.map_filter phase_of (cleanup_events E td) = [] \<or>
   List.map_filter phase_of (cleanup_events E td) = [CleaningUp] \<or>
   List.map_filter phase_of (cleanup_events E td) = [CleaningUp, CleaningUp]"
  using cleanup_events_cases [of E td] by (auto simp: List.map_filter_def)

lemma in_map_filter: "x \<in> set xs \<Longrightarrow> f x = Some y \<Longrightarrow> y \<in> set (List.map_filter f xs)"
  by (force simp: List.map_filter_def)

lemma failed_phases:
  assumes "prefix X (Extracting # ex @
             [Initializing, Staging, Committing, CreatingRemote, Pushing, Pushing])"
    and "ex = [] \<or> ex = [Extracting]"
    and "X \<noteq> []"
    and "cl = [] \<or> cl = [CleaningUp] \<or> cl = [CleaningUp, CleaningUp]"
  shows "remdups_adj (X @ [Failed] @ cl) = remdups_adj X @ [Failed] @ remdups_adj cl \<and>
         prefix (remdups_adj X) work_phases \<and> remdups_adj X \<noteq> []"
  using assms by (auto simp: prefix_Cons work_phases_def)

lemma succeeded_phases:
  assumes "ex = [] \<or> ex = [Extracting]"
    and "cl = [] \<or> cl = [CleaningUp] \<or> cl = [CleaningUp, CleaningUp]"
  shows "remdups_adj ((Extracting # ex @
            [Initializing, Staging, Committing, CreatingRemote, Pushing, Pushing]) @
            cl @ [Succeeded]) = work_phases @ remdups_adj cl @ [Succeeded]"
  using assms by (auto simp: work_phases_def)

lemma calls_of_append: "calls_of (a @ b) = calls_of a @ calls_of b"
  by (simp add: calls_of_def)

lemma distinct_calls_body_cleanup:
  "distinct (calls_of (body_events E j d u) @ calls_of (cleanup_events E' td))"
  using extract_events_cases [of E "archive_path j" d] cleanup_events_cases [of E' td]
  by (auto simp: calls_of_def body_events_def post_event_def)

lemma distinct_calls_prefix:
  assumes "prefix pre (body_events E j d u)"
  shows "distinct (calls_of pre @ calls_of (cleanup_events E' td))"
proof -
  from assms obtain rest where b: "body_events E j d u = pre @ rest"
    by (auto simp: prefix_def)
  have "distinct ((calls_of pre @ calls_of rest) @ calls_of (cleanup_events E' td))"
    using distinct_calls_body_cleanup [of E j d u E' td] by (simp add: b calls_of_append)
  then show ?thesis
    by auto
qed

lemma phases_of_cleanup_exact:
  "remdups_adj (List.map_filter phase_of (cleanup_events E (Some d))) =
     (if d = [] then [] else [CleaningUp])"
  by (simp add: cleanup_events_def split: option.splits)

text \<open>
  Every run: if the \<^verbatim>\<open>try\<close> block returns, the states are the six working states, then
  \<open>CleaningUp\<close>, then \<open>Succeeded\<close>; if it raises, they are a non-empty initial part of the
  six working states, then \<open>Failed\<close> at once, then \<open>CleaningUp\<close>. \<open>CleaningUp\<close> is there
  exactly when a working directory with a non-empty name was allocated. No library call
  occurs twice in the log: nothing is retried.
\<close>

lemma run_phases_forward:
  "(case fst (run_body E j init_state) of
      Inr _ \<Rightarrow>
        phases (run_trace E j) =
          work_phases @ (if \<exists>d. mkdtemp E = Inr d \<and> d \<noteq> [] then [CleaningUp] else []) @
          [Succeeded]
    | Inl e \<Rightarrow>
        \<exists>q. phases (run_trace E j) =
               q @ [Failed] @ (if \<exists>d. mkdtemp E = Inr d \<and> d \<noteq> [] then [CleaningUp] else []) \<and>
            prefix q work_phases \<and> q \<noteq> []) \<and>
   distinct (calls_of (run_trace E j))"
proof (cases "mkdtemp E")
  case (Inl e)
  have t: "run_trace E j =
      [Status ''Creating temporary directory...'', Mkdtemp,
       Status (''Error: '' @ exn_str e), Complete False (exn_str e)]"
    using Inl by (simp add: run_trace_eq body_shape_Inl cleanup_events_def)
  have "phases (run_trace E j) = [Extracting] @ [Failed] @ [] \<and>
        prefix [Extracting] work_phases \<and> [Extracting] \<noteq> ([] :: phase list)"
    by (simp add: t phases_def work_phases_def)
  then have "\<exists>q. phases (run_trace E j) = q @ [Failed] @ [] \<and> prefix q work_phases \<and> q \<noteq> []"
    by blast
  moreover have "distinct (calls_of (run_trace E j))"
    by (simp add: t calls_of_def)
  ultimately show ?thesis
    using Inl by (simp add: body_shape_Inl)
next
  case (Inr d)
  let ?cl = "List.map_filter phase_of (cleanup_events E (Some d))"
  have cl: "(if \<exists>d. mkdtemp E = Inr d \<and> d \<noteq> [] then [CleaningUp] else []) = remdups_adj ?cl"
    by (simp add: Inr phases_of_cleanup_exact)
  obtain r s where rb: "run_body E j init_state = (r, s)"
    by (cases "run_body E j init_state")
  from body_shape_Inr [OF Inr, of j] rb obtain u where
    fail: "\<And>e. r = Inl e \<Longrightarrow> prefix (trace s) (body_events E j d u)" and
    ok: "\<And>x. r = Inr x \<Longrightarrow> trace s =
           body_events E j d u @ cleanup_events E (Some d) @
           [Progress 100,
            Complete True (''Successfully uploaded to '' @ format_value (str_other E) u)]" and
    td: "temp_dir s = Some d" and mk: "Mkdtemp \<in> set (trace s)"
    by auto
  show ?thesis
  proof (cases r)
    case (Inl e)
    let ?X = "List.map_filter phase_of (trace s)"
    have t: "run_trace E j =
        trace s @ [Status (''Error: '' @ exn_str e), Complete False (exn_str e)] @
        cleanup_events E (Some d)"
      by (simp add: run_trace_eq rb Inl td)
    have px: "prefix ?X (Extracting # List.map_filter phase_of (extract_events E (archive_path j) d) @
                [Initializing, Staging, Committing, CreatingRemote, Pushing, Pushing])"
      using prefix_map_filter [OF fail [OF Inl], of phase_of] by (simp add: phases_of_body)
    have ne: "?X \<noteq> []"
      using in_map_filter [OF mk, of phase_of Extracting] by auto
    have ph: "phases (run_trace E j) = remdups_adj (?X @ [Failed] @ ?cl)"
      by (simp add: phases_def t map_filter_append)
    from failed_phases [OF px phases_of_extract ne phases_of_cleanup]
    have "\<exists>q. phases (run_trace E j) = q @ [Failed] @ remdups_adj ?cl \<and>
             prefix q work_phases \<and> q \<noteq> []"
      unfolding ph by blast
    moreover have "distinct (calls_of (run_trace E j))"
      using distinct_calls_prefix [OF fail [OF Inl], of E "Some d"]
      by (simp add: t calls_of_append) (simp add: calls_of_def)
    ultimately show ?thesis
      unfolding cl by (simp add: rb Inl)
  next
    case (Inr x)
    have t: "run_trace E j =
        body_events E j d u @ cleanup_events E (Some d) @
        [Progress 100,
         Complete True (''Successfully uploaded to '' @ format_value (str_other E) u)]"
      using ok [OF Inr] by (simp add: run_trace_eq rb Inr)
    have ph: "phases (run_trace E j) =
        remdups_adj ((Extracting # List.map_filter phase_of (extract_events E (archive_path j) d) @
           [Initializing, Staging, Committing, CreatingRemote, Pushing, Pushing]) @
           ?cl @ [Succeeded])"
      by (simp add: phases_def t map_filter_append phases_of_body)
    from succeeded_phases [OF phases_of_extract phases_of_cleanup]
    have "phases (run_trace E j) = work_phases @ remdups_adj ?cl @ [Succeeded]"
      unfolding ph by blast
    moreover have "distinct (calls_of (run_trace E j))"
      using distinct_calls_body_cleanup [of E j d u E "Some d"]
      by (simp add: t calls_of_append) (simp add: calls_of_def)
    ultimately show ?thesis
      unfolding cl by (simp add: rb Inr)
  qed
qed

text \<open>The run in which there is nothing to commit.\<close>

lemma run_body_commit_fails:
  "run_body env_commit_fails demo_job init_state =
     (Inl (LibError ''nothing to commit''),
      \<lparr>temp_dir = Some ''/tmp/w'',
       trace = [Status ''Creating temporary directory...'', Mkdtemp, Progress 10,
                Status ''Extracting project.zip to temporary directory...'',
                ZipExtractall ''project.zip'' ''/tmp/w'',
                Progress 30, Status ''Initializing Git repository...'', RepoInit ''/tmp/w'',
                Progress 40, Status ''Adding files to Git...'', GitAdd ''/tmp/w'',
                Progress 50, Status ''Committing files...'',
                GitCommit ''/tmp/w'' ''Initial commit'']\<rparr>)"
proof -
  have f: "os_platform env_commit_fails = Posix" "mkdtemp env_commit_fails = Inr ''/tmp/w''"
    "zip_extractall env_commit_fails = (\<lambda>_ _. None)" "repo_init env_commit_fails = (\<lambda>_. None)"
    "git_add env_commit_fails = (\<lambda>_. None)"
    "git_commit env_commit_fails =
       (\<lambda>_ _. Some (LibError ''nothing to commit''))"
    by (simp_all add: env_commit_fails_def demo_env_simps)
  show ?thesis
    by (simp add: body_simps result_of_extract extract_events_def f demo_job_def demo_ext_zip)
qed

text \<open>
  Claim C2. The steps do run forward only, the steps after the failing one are not run,
  and nothing is retried, as the claim says. The end of a failing run is not the claimed
  one: the handler (lines 58 to 61) reports the failure and then calls \<^verbatim>\<open>cleanup\<close>, so
  the run passes \<open>Failed\<close> and then \<open>CleaningUp\<close>, whereas the success path (lines 55 to
  57) passes \<open>CleaningUp\<close> and then \<open>Succeeded\<close>. In the run below the commit fails: no
  remote is created, nothing is pushed, the failure is reported, and the working directory
  is deleted after the report.
\<close>

theorem commit_failure_run_fails_before_cleanup:
  "run_trace env_commit_fails demo_job =
     [Status ''Creating temporary directory...'', Mkdtemp, Progress 10,
      Status ''Extracting project.zip to temporary directory...'',
      ZipExtractall ''project.zip'' ''/tmp/w'',
      Progress 30, Status ''Initializing Git repository...'', RepoInit ''/tmp/w'',
      Progress 40, Status ''Adding files to Git...'', GitAdd ''/tmp/w'',
      Progress 50, Status ''Committing files...'', GitCommit ''/tmp/w'' ''Initial commit'',
      Status ''Error: nothing to commit'',
      Complete False ''nothing to commit'',
      PathExists ''/tmp/w'', Rmtree ''/tmp/w''] \<and>
   phases (run_trace env_commit_fails demo_job) =
     [Extracting, Initializing, Staging, Committing, Failed, CleaningUp]"
  by (simp add: run_trace_eq run_body_commit_fails phases_def)
    (simp add: cleanup_events_def env_commit_fails_def demo_env_simps)

subsection \<open>A failing deletion\<close>

lemma result_of_extract_rmtree [simp]:
  "result_of (extract_archive (E\<lparr>rmtree := f\<rparr>) p d) = result_of (extract_archive E p d)"
  by (simp add: result_of_extract Let_def str_lower_def)

lemma extract_events_rmtree [simp]:
  "extract_events (E\<lparr>rmtree := f\<rparr>) p d = extract_events E p d"
  by (simp add: extract_events_def)

lemma result_of_create_rmtree [simp]:
  "result_of (create_github_repo (E\<lparr>rmtree := f\<rparr>) j) = result_of (create_github_repo E j)"
  by (simp add: result_of_def create_github_repo_def Let_def cong: if_cong)

lemma body_events_rmtree [simp]:
  "body_events (E\<lparr>rmtree := f\<rparr>) j d u = body_events E j d u"
  by (simp add: body_events_def)

text \<open>Up to the call of \<^verbatim>\<open>cleanup\<close> the \<^verbatim>\<open>try\<close> block does not depend on what deleting
  does.\<close>

lemma run_body_rmtree_pair:
  "case run_body (E\<lparr>rmtree := f\<rparr>) j init_state of
     (r', s') \<Rightarrow>
       (case run_body E j init_state of
          (r, s) \<Rightarrow> r' = r \<and> (\<forall>e. r = Inl e \<longrightarrow> s' = s))"
proof (cases "mkdtemp E")
  case (Inl e)
  then show ?thesis
    by (simp add: body_shape_Inl)
next
  case (Inr d)
  then show ?thesis
    apply (cases "result_of (extract_archive E (archive_path j) d)")
     apply (simp add: body_simps)
    apply (cases "repo_init E d")
     prefer 2
     apply (simp add: body_simps)
    apply (cases "git_add E d")
     prefer 2
     apply (simp add: body_simps)
    apply (cases "git_commit E d ''Initial commit''")
     prefer 2
     apply (simp add: body_simps)
    apply (cases "result_of (create_github_repo E j)")
     apply (simp add: body_simps)
    subgoal for x1 u
      apply (cases "create_remote E d ''origin'' u")
       prefer 2
       apply (simp add: body_simps)
      apply (cases "git_push E d ''origin'' ''master''")
       prefer 2
       apply (simp add: body_simps)
      apply (simp add: body_simps)
      done
    done
qed

lemma run_body_rmtree:
  "fst (run_body (E\<lparr>rmtree := f\<rparr>) j init_state) = fst (run_body E j init_state)"
  "fst (run_body E j init_state) = Inl e \<Longrightarrow>
   snd (run_body (E\<lparr>rmtree := f\<rparr>) j init_state) = snd (run_body E j init_state)"
  using run_body_rmtree_pair [where E = E and f = f and j = j]
  by (cases "run_body (E\<lparr>rmtree := f\<rparr>) j init_state"; cases "run_body E j init_state"; simp)+

lemma statuses_of_cleanup_ok:
  "statuses_of (cleanup_events (E\<lparr>rmtree := (\<lambda>_. None)\<rparr>) td) = []"
  by (simp add: cleanup_events_def split: option.splits)

lemma statuses_of_cleanup_failed:
  "d \<noteq> [] \<Longrightarrow> path_exists E d \<Longrightarrow> rmtree E d = Some e \<Longrightarrow>
   statuses_of (cleanup_events E (Some d)) =
     [''Warning: Failed to clean up temporary directory: '' @ exn_str e]"
  by (simp add: cleanup_events_def)

text \<open>
  Claim C7. For every run in which the working directory \<open>d\<close> was allocated, still exists
  when \<^verbatim>\<open>cleanup\<close> looks, and its deletion raises \<open>e\<close>: compared with the run in which
  everything is the same except that the deletion succeeds, the terminal outcome (success
  or failure, and its message) is the same, the progress values are the same, and the
  status log is the same followed by exactly one more line, the warning with the text of
  \<open>e\<close>. The deletion was attempted.
\<close>

theorem cleanup_failure_is_warning:
  assumes "mkdtemp E = Inr d" and "d \<noteq> []" and "path_exists E d" and "rmtree E d = Some e"
  shows "outcomes_of (run_trace E j) = outcomes_of (run_trace (E\<lparr>rmtree := (\<lambda>_. None)\<rparr>) j) \<and>
         statuses_of (run_trace E j) =
           statuses_of (run_trace (E\<lparr>rmtree := (\<lambda>_. None)\<rparr>) j) @
           [''Warning: Failed to clean up temporary directory: '' @ exn_str e] \<and>
         progress_of (run_trace E j) = progress_of (run_trace (E\<lparr>rmtree := (\<lambda>_. None)\<rparr>) j) \<and>
         Rmtree d \<in> set (run_trace E j)"
proof -
  let ?E0 = "E\<lparr>rmtree := (\<lambda>_. None)\<rparr>"
  have mk0: "mkdtemp ?E0 = Inr d"
    using assms(1) by simp
  have w: "statuses_of (cleanup_events E (Some d)) =
             [''Warning: Failed to clean up temporary directory: '' @ exn_str e]"
    using assms by (simp add: statuses_of_cleanup_failed)
  have rm: "Rmtree d \<in> set (cleanup_events E (Some d))"
    using assms by (simp add: cleanup_events_def)
  obtain r s where rb: "run_body E j init_state = (r, s)"
    by (cases "run_body E j init_state")
  show ?thesis
  proof (cases r)
    case (Inl x)
    have f: "fst (run_body E j init_state) = Inl x"
      by (simp add: rb Inl)
    have rb0: "run_body ?E0 j init_state = (Inl x, s)"
      using run_body_rmtree(1) [where E = E and f = "\<lambda>_. None" and j = j]
        run_body_rmtree(2) [OF f, where f = "\<lambda>_. None"]
      by (cases "run_body ?E0 j init_state") (simp add: rb Inl)
    have td: "temp_dir s = Some d"
      using body_shape_Inr [OF assms(1), of j] by (auto simp: rb)
    show ?thesis
      using w rm
      by (simp add: run_trace_eq rb rb0 Inl td outcomes_of_append statuses_of_append
          progress_of_append statuses_of_cleanup_ok)
  next
    case (Inr y)
    have f: "fst (run_body E j init_state) = Inr y"
      by (simp add: rb Inr)
    have f0: "fst (run_body ?E0 j init_state) = Inr y"
      using run_body_rmtree(1) [where E = E and f = "\<lambda>_. None" and j = j] f by simp
    from body_success [OF f] assms(1) obtain u where
      c: "result_of (create_github_repo E j) = Inr u" and
      t: "run_trace E j =
         body_events E j d u @ cleanup_events E (Some d) @
         [Progress 100,
          Complete True (''Successfully uploaded to '' @ format_value (str_other E) u)]"
      by auto
    from body_success [OF f0] mk0 c have
      t0: "run_trace ?E0 j =
         body_events E j d u @ cleanup_events ?E0 (Some d) @
         [Progress 100,
          Complete True (''Successfully uploaded to '' @ format_value (str_other E) u)]"
      by auto
    show ?thesis
      using w rm
      by (simp add: t t0 outcomes_of_append statuses_of_append progress_of_append
          statuses_of_cleanup_ok)
  qed
qed

theorem cleanup_failure_is_warning_witness:
  "rmtree env_rmtree_fails ''/tmp/w'' = Some (LibError ''Permission denied'') \<and>
   outcomes_of (run_trace env_rmtree_fails demo_job) =
     [(True, ''Successfully uploaded to https://example.test/user/myproj'')] \<and>
   statuses_of (run_trace env_rmtree_fails demo_job) =
     statuses_of (run_trace demo_env demo_job) @
     [''Warning: Failed to clean up temporary directory: Permission denied'']"
proof -
  have a: "mkdtemp env_rmtree_fails = Inr ''/tmp/w''" "''/tmp/w'' \<noteq> []"
    "path_exists env_rmtree_fails ''/tmp/w''"
    "rmtree env_rmtree_fails ''/tmp/w'' = Some (LibError ''Permission denied'')"
    by (simp_all add: env_rmtree_fails_def demo_env_simps)
  have e0: "env_rmtree_fails\<lparr>rmtree := (\<lambda>_. None)\<rparr> = demo_env"
    by (simp add: env_rmtree_fails_def demo_env_def)
  have o: "outcomes_of (run_trace demo_env demo_job) =
     [(True, ''Successfully uploaded to https://example.test/user/myproj'')]"
    by (simp add: run_trace_eq run_body_demo outcomes_of_append)
  show ?thesis
    using a(4) cleanup_failure_is_warning [OF a, of demo_job]
    by (simp add: e0 o)
qed

subsection \<open>Letter case of the extension\<close>

lemma lower_char_idem: "lower_char (lower_char c) = lower_char c"
  by (auto simp: lower_char_def)

lemma lower_idem: "lower (lower s) = lower s"
  by (simp add: lower_def lower_char_idem)

lemma lower_char_dot: "(lower_char x = CHR ''.'') = (x = CHR ''.'')"
  by (auto simp: lower_char_def)

lemma lower_char_slash: "(lower_char x = CHR ''/'') = (x = CHR ''/'')"
  by (auto simp: lower_char_def)

lemma lower_char_backslash: "(lower_char x = CHR 0x5C) = (x = CHR 0x5C)"
  by (auto simp: lower_char_def)

lemma takeWhile_map_prefix:
  assumes "\<And>x. (f x = c) = (x = c)"
  shows "length (takeWhile (\<lambda>x. x \<noteq> c) (map f zs @ ws)) =
         length (takeWhile (\<lambda>x. x \<noteq> c) (zs @ ws))"
  by (induction zs) (simp_all add: assms)

lemma rfind_map_suffix:
  assumes "\<And>x. (f x = c) = (x = c)"
  shows "rfind c (xs @ map f ys) = rfind c (xs @ ys)"
proof -
  have m: "(c \<in> f ` set ys) = (c \<in> set ys)"
    using assms by (metis image_iff)
  show ?thesis
    using takeWhile_map_prefix [of f c "rev ys" "rev xs", OF assms]
    by (simp add: rfind_def m rev_map)
qed

lemma takeWhile_less: "c \<in> set zs \<Longrightarrow> length (takeWhile (\<lambda>x. x \<noteq> c) zs) < length zs"
  by (induction zs) auto

lemma rfind_bounds: "- 1 \<le> rfind c s \<and> rfind c s < int (length s)"
  using takeWhile_less [of c "rev s"] by (auto simp: rfind_def)

lemma fold_max_rfind_map:
  assumes "\<And>c x. c \<in> set cs \<Longrightarrow> (f x = c) = (x = c)"
  shows "fold (\<lambda>c m. max m (rfind c (xs @ map f ys))) cs m0 =
         fold (\<lambda>c m. max m (rfind c (xs @ ys))) cs m0"
  using assms
proof (induction cs arbitrary: m0)
  case Nil
  then show ?case by simp
next
  case (Cons a cs)
  have "rfind a (xs @ map f ys) = rfind a (xs @ ys)"
    by (rule rfind_map_suffix) (simp add: Cons.prems)
  then show ?case
    using Cons by simp
qed

lemma separators_lower: "c \<in> set (separators pf) \<Longrightarrow> (lower_char x = c) = (x = c)"
  by (cases pf) (auto simp: lower_char_slash lower_char_backslash)

lemma splitext_lowercase_ext:
  "splitext pf (lowercase_ext pf p) = (fst (splitext pf p), lower (snd (splitext pf p)))"
proof -
  let ?sep = "fold (\<lambda>c m. max m (rfind c p)) (separators pf) (- 1)"
  let ?dot = "rfind CHR ''.'' p"
  let ?k = "nat ?dot"
  show ?thesis
  proof (cases "?dot > ?sep \<and>
      list_ex (\<lambda>c. c \<noteq> CHR ''.'') (drop (nat (?sep + 1)) (take ?k p))")
    case False
    then have "splitext pf p = (p, [])"
      by (auto simp: splitext_def Let_def)
    then show ?thesis
      by (simp add: lowercase_ext_def lower_def)
  next
    case True
    then have sp: "splitext pf p = (take ?k p, drop ?k p)"
      by (auto simp: splitext_def Let_def)
    let ?q = "take ?k p @ map lower_char (drop ?k p)"
    have q: "lowercase_ext pf p = ?q"
      by (simp add: lowercase_ext_def sp lower_def)
    have kl: "?k \<le> length p"
      using rfind_bounds [of "CHR ''.''" p] by linarith
    have dq: "rfind CHR ''.'' ?q = ?dot"
      using rfind_map_suffix [of lower_char "CHR ''.''" "take ?k p" "drop ?k p"]
      by (simp add: lower_char_dot)
    have sq: "fold (\<lambda>c m. max m (rfind c ?q)) (separators pf) (- 1) = ?sep"
      using fold_max_rfind_map [of "separators pf" lower_char "take ?k p" "drop ?k p" "- 1"]
      by (simp add: separators_lower)
    have tq: "take ?k ?q = take ?k p" "drop ?k ?q = map lower_char (drop ?k p)"
      using kl by simp_all
    have "splitext pf ?q = (take ?k p, map lower_char (drop ?k p))"
      using True by (simp add: splitext_def [of pf ?q] Let_def dq sq tq del: take_append drop_append)
    then show ?thesis
      by (simp add: q sp lower_def)
  qed
qed


lemma extract_events_lowercase_ext:
  "routines (extract_events E (lowercase_ext (os_platform E) p) d) =
   routines (extract_events E p d)"
  by (simp add: extract_events_def routines_def splitext_lowercase_ext lower_idem Let_def)

lemma routines_append: "routines (a @ b) = routines a @ routines b"
  by (simp add: routines_def map_filter_append)

text \<open>
  Claim C10. The extension is put in lower case before it is compared: for every archive
  path, whatever the letter case of its extension (\<^verbatim>\<open>.ZIP\<close>, \<^verbatim>\<open>.Tar\<close>, ...), the extractor
  uses the same decompression routine as for the same path with the extension in lower
  case.
\<close>

theorem extension_case_insensitive:
  "routines (trace (snd (extract_archive E (lowercase_ext (os_platform E) p) d s))) =
   routines (trace (snd (extract_archive E p d s)))"
  by (simp add: extract_archive_eq routines_append extract_events_lowercase_ext)

lemma demo_ext_upper:
  "lowercase_ext Posix ''Project.ZIP'' = ''Project.zip''"
  "lowercase_ext Posix ''/data/Site.Tar'' = ''/data/Site.tar''"
  by (simp_all add: lowercase_ext_def splitext_def rfind_def lower_def lower_char_def)

lemma demo_ext_lower:
  "lower (snd (splitext Posix ''Project.zip'')) = ''.zip''"
  "lower (snd (splitext Posix ''/data/Site.tar'')) = ''.tar''"
  by (simp_all add: splitext_def rfind_def lower_def lower_char_def)

theorem extension_case_insensitive_witness:
  "routines (trace (snd (extract_archive demo_env ''Project.ZIP'' ''/tmp/w'' init_state))) =
     [ZipRoutine] \<and>
   routines (trace (snd (extract_archive demo_env ''/data/Site.Tar'' ''/tmp/w'' init_state))) =
     [TarRoutine]"
proof -
  have z: "routines (trace (snd (extract_archive demo_env ''Project.zip'' ''/tmp/w'' init_state))) =
             [ZipRoutine]"
    by (simp add: extract_archive_eq extract_events_def routines_def demo_env_simps
        demo_ext_lower init_state_def)
  have t: "routines (trace (snd (extract_archive demo_env ''/data/Site.tar'' ''/tmp/w'' init_state))) =
             [TarRoutine]"
    by (simp add: extract_archive_eq extract_events_def routines_def demo_env_simps
        demo_ext_lower init_state_def)
  show ?thesis
    using extension_case_insensitive [of demo_env "''Project.ZIP''" "''/tmp/w''" init_state]
      extension_case_insensitive [of demo_env "''/data/Site.Tar''" "''/tmp/w''" init_state]
    by (simp add: demo_env_simps demo_ext_upper z t)
qed

end
